theory Spec2Isabelle
  imports Complex_Main "HOL-Library.AList"
begin

section \<open>Values and strings\<close>

text \<open>
  The parameter bags of the orchestrator are Python dictionaries of type
  \<^verbatim>\<open>Dict[str, Any]\<close>.  Their values are modelled by the JSON-shaped Python values: \<^verbatim>\<open>None\<close>,
  booleans, unbounded integers, strings, lists and dictionaries with string keys.  A
  dictionary is an association list in insertion order; lookups take the first entry of a
  key and stores go through \<^const>\<open>AList.update\<close>, which overwrites in place or appends at the
  end, as a Python dictionary does.  Strings are lists of characters with code points below
  256 and their length is the number of characters.  Floating-point numbers are left out:
  the checks of the validator treat them as they treat \<^verbatim>\<open>None\<close>.
\<close>

datatype pval =
    PNone
  | PBool bool
  | PInt int
  | PStr string
  | PList "pval list"
  | PDict "(string \<times> pval) list"

type_synonym pdict = "(string \<times> pval) list"

datatype py_exception = TypeError | KeyError | ValueError

text \<open>\<^verbatim>\<open>str.isspace\<close>, which is also the class \<^verbatim>\<open>\s\<close> of a pattern, on the code points below
  256: tab, line feed, vertical tab, form feed, carriage return, the four separators
  0x1c..0x1f, the space, the next-line control 0x85 and the no-break space 0xa0.\<close>

definition is_space :: "char \<Rightarrow> bool" where
  "is_space c = (c \<in> set [CHR 0x09, CHR 0x0A, CHR 0x0B, CHR 0x0C, CHR 0x0D,
                            CHR 0x1C, CHR 0x1D, CHR 0x1E, CHR 0x1F, CHR 0x20,
                            CHR 0x85, CHR 0xA0])"

definition strip :: "string \<Rightarrow> string" where
  "strip s = rev (dropWhile is_space (rev (dropWhile is_space s)))"

text \<open>\<^verbatim>\<open>s.replace('\x00', '')\<close>\<close>

definition remove_null :: "string \<Rightarrow> string" where
  "remove_null s = filter (\<lambda>c. c \<noteq> CHR 0x00) s"

text \<open>\<^verbatim>\<open>str.lower\<close> on the code points below 256: the letters A to Z, and the capital
  letters 0xc0..0xde of the Latin-1 range without the multiplication sign 0xd7, each go to
  the code point 32 above.\<close>

definition upper_latin1 :: string where
  "upper_latin1 =
     [CHR 0xC0, CHR 0xC1, CHR 0xC2, CHR 0xC3, CHR 0xC4, CHR 0xC5, CHR 0xC6, CHR 0xC7,
      CHR 0xC8, CHR 0xC9, CHR 0xCA, CHR 0xCB, CHR 0xCC, CHR 0xCD, CHR 0xCE, CHR 0xCF,
      CHR 0xD0, CHR 0xD1, CHR 0xD2, CHR 0xD3, CHR 0xD4, CHR 0xD5, CHR 0xD6,
      CHR 0xD8, CHR 0xD9, CHR 0xDA, CHR 0xDB, CHR 0xDC, CHR 0xDD, CHR 0xDE]"

definition lower_latin1 :: string where
  "lower_latin1 =
     [CHR 0xE0, CHR 0xE1, CHR 0xE2, CHR 0xE3, CHR 0xE4, CHR 0xE5, CHR 0xE6, CHR 0xE7,
      CHR 0xE8, CHR 0xE9, CHR 0xEA, CHR 0xEB, CHR 0xEC, CHR 0xED, CHR 0xEE, CHR 0xEF,
      CHR 0xF0, CHR 0xF1, CHR 0xF2, CHR 0xF3, CHR 0xF4, CHR 0xF5, CHR 0xF6,
      CHR 0xF8, CHR 0xF9, CHR 0xFA, CHR 0xFB, CHR 0xFC, CHR 0xFD, CHR 0xFE]"

definition lower_char :: "char \<Rightarrow> char" where
  "lower_char c =
     (case map_of (zip (''ABCDEFGHIJKLMNOPQRSTUVWXYZ'' @ upper_latin1)
                       (''abcdefghijklmnopqrstuvwxyz'' @ lower_latin1)) c of
        Some d \<Rightarrow> d
      | None \<Rightarrow> c)"

definition lower :: "string \<Rightarrow> string" where
  "lower s = map lower_char s"

text \<open>\<^verbatim>\<open>p in s\<close> for two strings: \<open>p\<close> occurs in \<open>s\<close> as a contiguous block.  It is also
  \<^verbatim>\<open>re.search(p, s)\<close> for a pattern \<open>p\<close> without metacharacters.\<close>

fun starts_with :: "string \<Rightarrow> string \<Rightarrow> bool" where
  "starts_with s [] = True"
| "starts_with [] (p # ps) = False"
| "starts_with (c # cs) (p # ps) = (c = p \<and> starts_with cs ps)"

fun contains :: "string \<Rightarrow> string \<Rightarrow> bool" where
  "contains [] p = (p = [])"
| "contains (c # cs) p = (starts_with (c # cs) p \<or> contains cs p)"

definition digit_char :: "nat \<Rightarrow> char" where
  "digit_char d = ''0123456789'' ! d"

fun nat_to_str :: "nat \<Rightarrow> string" where
  "nat_to_str n =
     (if n < 10 then [digit_char n] else nat_to_str (n div 10) @ [digit_char (n mod 10)])"

declare nat_to_str.simps [simp del]

section \<open>The data model (models.py)\<close>

datatype Role = USER | ASSISTANT

datatype TeachingStyle = DIRECT | SOCRATIC | VISUAL | FLIPPED_CLASSROOM

datatype EmotionalState = FOCUSED | ANXIOUS | CONFUSED | TIRED

record ChatMessage =
  role :: Role
  content :: string

record UserInfo =
  user_id :: string
  name :: string
  grade_level :: string
  learning_style_summary :: string
  emotional_state_summary :: string
  mastery_level_summary :: string

record ConversationContext =
  ctx_user_info :: UserInfo
  ctx_chat_history :: "ChatMessage list"
  current_message :: string
  teaching_style :: "TeachingStyle option"
  emotional_state :: "EmotionalState option"
  mastery_level :: "int option"

record ToolRequest =
  tool_name :: string
  parameters :: pdict
  req_user_info :: UserInfo
  req_chat_history :: "ChatMessage list"

record ToolResponse =
  success :: bool
  data :: "pval option"
  error :: "string option"
  error_code :: "string option"

record EducationalIntent =
  intent_type :: string
  confidence :: real
  extracted_parameters :: pdict
  missing_parameters :: "string list"
  suggested_tool :: string

record OrchestratorResponse =
  resp_success :: bool
  resp_tool_response :: "ToolResponse option"
  resp_educational_intent :: "EducationalIntent option"
  resp_error_message :: "string option"
  resp_conversation_context :: "ConversationContext option"

text \<open>The value of a string enumeration member, and \<^verbatim>\<open>.dict()\<close> of the two models that the
  extractor copies into a parameter bag.\<close>

fun role_value :: "Role \<Rightarrow> string" where
  "role_value USER = ''user''"
| "role_value ASSISTANT = ''assistant''"

definition user_info_dict :: "UserInfo \<Rightarrow> pdict" where
  "user_info_dict u =
     [(''user_id'', PStr (user_id u)),
      (''name'', PStr (name u)),
      (''grade_level'', PStr (grade_level u)),
      (''learning_style_summary'', PStr (learning_style_summary u)),
      (''emotional_state_summary'', PStr (emotional_state_summary u)),
      (''mastery_level_summary'', PStr (mastery_level_summary u))]"

definition chat_message_dict :: "ChatMessage \<Rightarrow> pdict" where
  "chat_message_dict m = [(''role'', PStr (role_value (role m))), (''content'', PStr (content m))]"

section \<open>Schema validator (schema\_validator.py)\<close>

datatype ValidationErrorType =
  MISSING_REQUIRED | INVALID_TYPE | INVALID_VALUE | CONSTRAINT_VIOLATION | SCHEMA_MISMATCH

text \<open>One entry of the \<^verbatim>\<open>errors\<close> list: its \<^verbatim>\<open>type\<close>, \<^verbatim>\<open>field\<close> and \<^verbatim>\<open>code\<close>.  The
  human-readable \<^verbatim>\<open>message\<close> is left out, and so are the two type names an
  \<^verbatim>\<open>INVALID_TYPE\<close> entry also carries.\<close>

datatype verror = VError (err_type: ValidationErrorType) (err_field: string) (err_code: string)

record ValidationResult =
  is_valid :: bool
  errors :: "verror list"
  warnings :: "string list"
  validated_data :: "pdict option"

text \<open>A constraint dictionary of the schema tables.  Each key the tables use is an optional
  field; \<open>c_enum\<close> is the key \<^verbatim>\<open>"enum"\<close> and \<open>c_enum_values\<close> the key \<^verbatim>\<open>"enum_values"\<close>.\<close>

record constraint =
  c_min_length :: "nat option"
  c_max_length :: "nat option"
  c_enum_values :: "string list option"
  c_min :: "int option"
  c_max :: "int option"
  c_type :: "string option"
  c_enum :: "string list option"

definition no_constraints :: constraint where
  "no_constraints = \<lparr>c_min_length = None, c_max_length = None, c_enum_values = None,
     c_min = None, c_max = None, c_type = None, c_enum = None\<rparr>"

record tool_schema =
  required_fields :: "string list"
  optional_fields :: "string list"
  field_types :: "(string \<times> string) list"
  constraints :: "(string \<times> constraint) list"

definition note_maker_schema :: tool_schema where
  "note_maker_schema = \<lparr>
     required_fields = [''user_info'', ''chat_history'', ''topic'', ''subject'', ''note_taking_style''],
     optional_fields = [''include_examples'', ''include_analogies''],
     field_types = [(''user_info'', ''object''), (''chat_history'', ''array''),
       (''topic'', ''string''), (''subject'', ''string''), (''note_taking_style'', ''enum''),
       (''include_examples'', ''boolean''), (''include_analogies'', ''boolean'')],
     constraints = [
       (''topic'', no_constraints\<lparr>c_min_length := Some 1, c_max_length := Some 200\<rparr>),
       (''subject'', no_constraints\<lparr>c_min_length := Some 1, c_max_length := Some 100\<rparr>),
       (''note_taking_style'', no_constraints\<lparr>c_enum_values :=
          Some [''outline'', ''bullet_points'', ''narrative'', ''structured'']\<rparr>),
       (''include_examples'', no_constraints\<lparr>c_type := Some ''boolean''\<rparr>),
       (''include_analogies'', no_constraints\<lparr>c_type := Some ''boolean''\<rparr>)]\<rparr>"

definition flashcard_generator_schema :: tool_schema where
  "flashcard_generator_schema = \<lparr>
     required_fields = [''user_info'', ''topic'', ''count'', ''difficulty'', ''subject''],
     optional_fields = [''include_examples''],
     field_types = [(''user_info'', ''object''), (''topic'', ''string''), (''count'', ''integer''),
       (''difficulty'', ''enum''), (''subject'', ''string''), (''include_examples'', ''boolean'')],
     constraints = [
       (''topic'', no_constraints\<lparr>c_min_length := Some 1, c_max_length := Some 200\<rparr>),
       (''count'', no_constraints\<lparr>c_min := Some 1, c_max := Some 20\<rparr>),
       (''difficulty'', no_constraints\<lparr>c_enum_values := Some [''easy'', ''medium'', ''hard'']\<rparr>),
       (''subject'', no_constraints\<lparr>c_min_length := Some 1, c_max_length := Some 100\<rparr>),
       (''include_examples'', no_constraints\<lparr>c_type := Some ''boolean''\<rparr>)]\<rparr>"

definition concept_explainer_schema :: tool_schema where
  "concept_explainer_schema = \<lparr>
     required_fields = [''user_info'', ''chat_history'', ''concept_to_explain'', ''current_topic'',
       ''desired_depth''],
     optional_fields = [],
     field_types = [(''user_info'', ''object''), (''chat_history'', ''array''),
       (''concept_to_explain'', ''string''), (''current_topic'', ''string''),
       (''desired_depth'', ''enum'')],
     constraints = [
       (''concept_to_explain'', no_constraints\<lparr>c_min_length := Some 1, c_max_length := Some 200\<rparr>),
       (''current_topic'', no_constraints\<lparr>c_min_length := Some 1, c_max_length := Some 200\<rparr>),
       (''desired_depth'', no_constraints\<lparr>c_enum_values :=
          Some [''basic'', ''intermediate'', ''advanced'', ''comprehensive'']\<rparr>)]\<rparr>"

definition tool_schemas :: "(string \<times> tool_schema) list" where
  "tool_schemas = [(''note_maker'', note_maker_schema),
     (''flashcard_generator'', flashcard_generator_schema),
     (''concept_explainer'', concept_explainer_schema)]"

text \<open>The \<^verbatim>\<open>validation_rules\<close> table.  The constraint of a chat message's role lists its
  permitted values under the key \<^verbatim>\<open>"enum"\<close>.\<close>

definition user_info_required_fields :: "string list" where
  "user_info_required_fields = [''user_id'', ''name'', ''grade_level'', ''learning_style_summary'',
     ''emotional_state_summary'', ''mastery_level_summary'']"

definition user_info_field_constraints :: "(string \<times> constraint) list" where
  "user_info_field_constraints = [
     (''user_id'', no_constraints\<lparr>c_type := Some ''string'', c_min_length := Some 1\<rparr>),
     (''name'', no_constraints\<lparr>c_type := Some ''string'', c_min_length := Some 1,
        c_max_length := Some 100\<rparr>),
     (''grade_level'', no_constraints\<lparr>c_type := Some ''string'', c_min_length := Some 1\<rparr>),
     (''learning_style_summary'', no_constraints\<lparr>c_type := Some ''string'',
        c_min_length := Some 1, c_max_length := Some 500\<rparr>),
     (''emotional_state_summary'', no_constraints\<lparr>c_type := Some ''string'',
        c_min_length := Some 1, c_max_length := Some 500\<rparr>),
     (''mastery_level_summary'', no_constraints\<lparr>c_type := Some ''string'',
        c_min_length := Some 1, c_max_length := Some 500\<rparr>)]"

definition role_constraints :: constraint where
  "role_constraints = no_constraints\<lparr>c_type := Some ''string'',
     c_enum := Some [''user'', ''assistant'']\<rparr>"

definition content_constraints :: constraint where
  "content_constraints = no_constraints\<lparr>c_type := Some ''string'', c_min_length := Some 1,
     c_max_length := Some 2000\<rparr>"

definition array_min_length :: nat where "array_min_length = 0"
definition array_max_length :: nat where "array_max_length = 50"

subsection \<open>Type and constraint checks\<close>

datatype pytype = Tstr | Tint | Tbool | Tlist | Tdict

text \<open>\<^verbatim>\<open>isinstance\<close>: a Python \<^verbatim>\<open>bool\<close> is also an \<^verbatim>\<open>int\<close>.\<close>

fun isinstance :: "pval \<Rightarrow> pytype \<Rightarrow> bool" where
  "isinstance (PStr s) Tstr = True"
| "isinstance (PInt n) Tint = True"
| "isinstance (PBool b) Tint = True"
| "isinstance (PBool b) Tbool = True"
| "isinstance (PList xs) Tlist = True"
| "isinstance (PDict d) Tdict = True"
| "isinstance v T = False"

definition type_mapping :: "(string \<times> pytype) list" where
  "type_mapping = [(''string'', Tstr), (''integer'', Tint), (''boolean'', Tbool),
     (''array'', Tlist), (''object'', Tdict), (''enum'', Tstr)]"

definition validate_type :: "pval \<Rightarrow> string \<Rightarrow> bool" where
  "validate_type v expected_type =
     (if expected_type = ''enum'' then isinstance v Tstr
      else case map_of type_mapping expected_type of
             None \<Rightarrow> False
           | Some T \<Rightarrow> isinstance v T)"

definition str_constraint_errors :: "string \<Rightarrow> constraint \<Rightarrow> verror list" where
  "str_constraint_errors s c =
     (case c_min_length c of
        Some m \<Rightarrow> if length s < m
                  then [VError CONSTRAINT_VIOLATION ''string_length'' ''MIN_LENGTH_VIOLATION'']
                  else []
      | None \<Rightarrow> []) @
     (case c_max_length c of
        Some m \<Rightarrow> if length s > m
                  then [VError CONSTRAINT_VIOLATION ''string_length'' ''MAX_LENGTH_VIOLATION'']
                  else []
      | None \<Rightarrow> []) @
     (case c_enum_values c of
        Some vs \<Rightarrow> if s \<notin> set vs
                   then [VError INVALID_VALUE ''enum_value'' ''INVALID_ENUM_VALUE'']
                   else []
      | None \<Rightarrow> [])"

definition int_constraint_errors :: "int \<Rightarrow> constraint \<Rightarrow> verror list" where
  "int_constraint_errors n c =
     (case c_min c of
        Some m \<Rightarrow> if n < m
                  then [VError CONSTRAINT_VIOLATION ''integer_value'' ''MIN_VALUE_VIOLATION'']
                  else []
      | None \<Rightarrow> []) @
     (case c_max c of
        Some m \<Rightarrow> if n > m
                  then [VError CONSTRAINT_VIOLATION ''integer_value'' ''MAX_VALUE_VIOLATION'']
                  else []
      | None \<Rightarrow> [])"

text \<open>\<^verbatim>\<open>_validate_constraints\<close>.  The chain is \<^verbatim>\<open>str\<close>, then \<^verbatim>\<open>int\<close>, then \<^verbatim>\<open>bool\<close>; a boolean
  is an \<^verbatim>\<open>int\<close> (\<^verbatim>\<open>True\<close> is 1, \<^verbatim>\<open>False\<close> is 0), so it takes the integer branch and the
  boolean branch is never reached.\<close>

definition validate_constraints :: "pval \<Rightarrow> constraint \<Rightarrow> verror list" where
  "validate_constraints v c =
     (case v of
        PStr s \<Rightarrow> str_constraint_errors s c
      | PInt n \<Rightarrow> int_constraint_errors n c
      | PBool b \<Rightarrow> int_constraint_errors (if b then 1 else 0) c
      | _ \<Rightarrow> [])"

text \<open>\<^verbatim>\<open>_validate_field\<close> returns the pair \<^verbatim>\<open>is_valid\<close>, \<^verbatim>\<open>errors\<close>.\<close>

definition validate_field :: "string \<Rightarrow> pval \<Rightarrow> tool_schema \<Rightarrow> bool \<times> verror list" where
  "validate_field field_name v schema =
     (case map_of (field_types schema) field_name of
        None \<Rightarrow> (False, [VError SCHEMA_MISMATCH field_name ''UNDEFINED_FIELD''])
      | Some expected_type \<Rightarrow>
          (let cs = (case map_of (constraints schema) field_name of
                       None \<Rightarrow> no_constraints | Some c \<Rightarrow> c);
               errs = (if \<not> validate_type v expected_type
                       then [VError INVALID_TYPE field_name ''INVALID_TYPE''] else [])
                      @ validate_constraints v cs
           in (length errs = 0, errs)))"

subsection \<open>Structural checks of user\_info and chat\_history\<close>

text \<open>\<^verbatim>\<open>key in container\<close> and \<^verbatim>\<open>container[key]\<close> for a string key, with the exceptions
  Python raises on a value that is not a container or is not indexed by strings.\<close>

fun py_in :: "string \<Rightarrow> pval \<Rightarrow> py_exception + bool" where
  "py_in k (PDict d) = Inr (map_of d k \<noteq> None)"
| "py_in k (PStr s) = Inr (contains s k)"
| "py_in k (PList xs) = Inr (PStr k \<in> set xs)"
| "py_in k v = Inl TypeError"

fun py_getitem :: "pval \<Rightarrow> string \<Rightarrow> py_exception + pval" where
  "py_getitem (PDict d) k = (case map_of d k of None \<Rightarrow> Inl KeyError | Some v \<Rightarrow> Inr v)"
| "py_getitem v k = Inl TypeError"

fun py_len :: "pval \<Rightarrow> py_exception + nat" where
  "py_len (PList xs) = Inr (length xs)"
| "py_len (PStr s) = Inr (length s)"
| "py_len (PDict d) = Inr (length d)"
| "py_len v = Inl TypeError"

text \<open>The items a \<^verbatim>\<open>for\<close> loop sees: the elements of a list, the one-character strings of a
  string, the keys of a dictionary.\<close>

fun py_iter :: "pval \<Rightarrow> py_exception + pval list" where
  "py_iter (PList xs) = Inr xs"
| "py_iter (PStr s) = Inr (map (\<lambda>c. PStr [c]) s)"
| "py_iter (PDict d) = Inr (map (\<lambda>kv. PStr (fst kv)) d)"
| "py_iter v = Inl TypeError"

text \<open>The loop of \<^verbatim>\<open>_validate_user_info\<close> over the required fields, with the errors
  accumulated so far.\<close>

fun user_info_loop :: "pval \<Rightarrow> string list \<Rightarrow> verror list \<Rightarrow> py_exception + verror list" where
  "user_info_loop ui [] errs = Inr errs"
| "user_info_loop ui (f # fs) errs =
     (case py_in f ui of
        Inl e \<Rightarrow> Inl e
      | Inr False \<Rightarrow>
          user_info_loop ui fs
            (errs @ [VError MISSING_REQUIRED (''user_info.'' @ f) ''MISSING_USER_INFO_FIELD''])
      | Inr True \<Rightarrow>
          (case py_getitem ui f of
             Inl e \<Rightarrow> Inl e
           | Inr v \<Rightarrow>
               user_info_loop ui fs
                 (errs @ validate_constraints v
                    (case map_of user_info_field_constraints f of
                       None \<Rightarrow> no_constraints | Some c \<Rightarrow> c))))"

definition validate_user_info :: "pval \<Rightarrow> py_exception + (bool \<times> verror list)" where
  "validate_user_info ui =
     (case user_info_loop ui user_info_required_fields [] of
        Inl e \<Rightarrow> Inl e
      | Inr errs \<Rightarrow> Inr (length errs = 0, errs))"

text \<open>The body of the message loop of \<^verbatim>\<open>_validate_chat_history\<close> for message \<open>i\<close>.\<close>

definition message_errors :: "nat \<Rightarrow> pval \<Rightarrow> verror list" where
  "message_errors i message =
     (case message of
        PDict m \<Rightarrow>
          (case map_of m ''role'' of
             None \<Rightarrow> [VError MISSING_REQUIRED (''chat_history['' @ nat_to_str i @ ''].role'')
                        ''MISSING_ROLE'']
           | Some r \<Rightarrow> validate_constraints r role_constraints) @
          (case map_of m ''content'' of
             None \<Rightarrow> [VError MISSING_REQUIRED (''chat_history['' @ nat_to_str i @ ''].content'')
                        ''MISSING_CONTENT'']
           | Some c \<Rightarrow> validate_constraints c content_constraints)
      | _ \<Rightarrow> [VError INVALID_TYPE (''chat_history['' @ nat_to_str i @ '']'')
                ''INVALID_MESSAGE_TYPE''])"

fun messages_loop :: "nat \<Rightarrow> pval list \<Rightarrow> verror list" where
  "messages_loop i [] = []"
| "messages_loop i (m # ms) = message_errors i m @ messages_loop (Suc i) ms"

definition validate_chat_history :: "pval \<Rightarrow> py_exception + (bool \<times> verror list)" where
  "validate_chat_history ch =
     (case py_len ch of
        Inl e \<Rightarrow> Inl e
      | Inr n \<Rightarrow>
          (case py_iter ch of
             Inl e \<Rightarrow> Inl e
           | Inr items \<Rightarrow>
               (let errs =
                  (if n < array_min_length
                   then [VError CONSTRAINT_VIOLATION ''chat_history.length''
                           ''MIN_ARRAY_LENGTH_VIOLATION'']
                   else []) @
                  (if n > array_max_length
                   then [VError CONSTRAINT_VIOLATION ''chat_history.length''
                           ''MAX_ARRAY_LENGTH_VIOLATION'']
                   else []) @
                  messages_loop 0 items
                in Inr (length errs = 0, errs))))"

subsection \<open>validate\_tool\_request\<close>

text \<open>The two loops over the schema's field lists carry the pair of the error list and the
  \<^verbatim>\<open>validated_data\<close> dictionary built so far.\<close>

fun required_loop ::
  "tool_schema \<Rightarrow> pdict \<Rightarrow> string list \<Rightarrow> verror list \<times> pdict \<Rightarrow> verror list \<times> pdict" where
  "required_loop schema ps [] st = st"
| "required_loop schema ps (f # fs) (errs, vd) =
     (case map_of ps f of
        None \<Rightarrow>
          required_loop schema ps fs (errs @ [VError MISSING_REQUIRED f ''MISSING_REQUIRED''], vd)
      | Some v \<Rightarrow>
          (if fst (validate_field f v schema)
           then required_loop schema ps fs (errs, AList.update f v vd)
           else required_loop schema ps fs (errs @ snd (validate_field f v schema), vd)))"

fun optional_loop ::
  "tool_schema \<Rightarrow> pdict \<Rightarrow> string list \<Rightarrow> verror list \<times> pdict \<Rightarrow> verror list \<times> pdict" where
  "optional_loop schema ps [] st = st"
| "optional_loop schema ps (f # fs) (errs, vd) =
     (case map_of ps f of
        None \<Rightarrow> optional_loop schema ps fs (errs, vd)
      | Some v \<Rightarrow>
          (if fst (validate_field f v schema)
           then optional_loop schema ps fs (errs, AList.update f v vd)
           else optional_loop schema ps fs (errs @ snd (validate_field f v schema), vd)))"

text \<open>The two structural checks that follow the loops; either may raise.\<close>

definition user_info_step :: "pdict \<Rightarrow> verror list \<Rightarrow> py_exception + verror list" where
  "user_info_step ps errs =
     (case map_of ps ''user_info'' of
        None \<Rightarrow> Inr errs
      | Some ui \<Rightarrow>
          (case validate_user_info ui of
             Inl e \<Rightarrow> Inl e
           | Inr r \<Rightarrow> Inr (if \<not> fst r then errs @ snd r else errs)))"

definition chat_history_step :: "pdict \<Rightarrow> verror list \<Rightarrow> py_exception + verror list" where
  "chat_history_step ps errs =
     (case map_of ps ''chat_history'' of
        None \<Rightarrow> Inr errs
      | Some ch \<Rightarrow>
          (case validate_chat_history ch of
             Inl e \<Rightarrow> Inl e
           | Inr r \<Rightarrow> Inr (if \<not> fst r then errs @ snd r else errs)))"

text \<open>The body of the \<^verbatim>\<open>try\<close> block once the schema is found.\<close>

definition validate_body :: "tool_schema \<Rightarrow> pdict \<Rightarrow> py_exception + (verror list \<times> pdict)" where
  "validate_body schema ps =
     (let st1 = required_loop schema ps (required_fields schema) ([], []);
          st2 = optional_loop schema ps (optional_fields schema) st1
      in case user_info_step ps (fst st2) of
           Inl e \<Rightarrow> Inl e
         | Inr errs3 \<Rightarrow>
             (case chat_history_step ps errs3 of
                Inl e \<Rightarrow> Inl e
              | Inr errs4 \<Rightarrow> Inr (errs4, snd st2)))"

definition validate_tool_request :: "ToolRequest \<Rightarrow> ValidationResult" where
  "validate_tool_request req =
     (case map_of tool_schemas (tool_name req) of
        None \<Rightarrow>
          \<lparr>is_valid = False, errors = [VError SCHEMA_MISMATCH ''tool_name'' ''UNKNOWN_TOOL''],
           warnings = [], validated_data = None\<rparr>
      | Some schema \<Rightarrow>
          (case validate_body schema (parameters req) of
             Inl e \<Rightarrow>
               \<lparr>is_valid = False, errors = [VError SCHEMA_MISMATCH ''general'' ''VALIDATION_ERROR''],
                warnings = [], validated_data = None\<rparr>
           | Inr (errs, vd) \<Rightarrow>
               \<lparr>is_valid = (length errs = 0), errors = errs, warnings = [],
                validated_data = (if length errs = 0 then Some vd else None)\<rparr>))"

subsection \<open>sanitize\_input\<close>

text \<open>\<^verbatim>\<open>sanitize_input\<close> walks the items of a dictionary: a string is stripped and then loses
  its null characters, a dictionary is sanitised recursively, and in a list only the
  elements that are dictionaries are sanitised; every other element and every other value
  is copied as it is.\<close>

fun sanitize_input :: "pdict \<Rightarrow> pdict"
  and sanitize_value :: "pval \<Rightarrow> pval"
  and sanitize_items :: "pval list \<Rightarrow> pval list" where
  "sanitize_input [] = []"
| "sanitize_input ((k, v) # rest) = (k, sanitize_value v) # sanitize_input rest"
| "sanitize_value (PStr s) = PStr (remove_null (strip s))"
| "sanitize_value (PDict d) = PDict (sanitize_input d)"
| "sanitize_value (PList xs) = PList (sanitize_items xs)"
| "sanitize_value PNone = PNone"
| "sanitize_value (PBool b) = PBool b"
| "sanitize_value (PInt n) = PInt n"
| "sanitize_items [] = []"
| "sanitize_items (PDict d # xs) = PDict (sanitize_input d) # sanitize_items xs"
| "sanitize_items (PNone # xs) = PNone # sanitize_items xs"
| "sanitize_items (PBool b # xs) = PBool b # sanitize_items xs"
| "sanitize_items (PInt n # xs) = PInt n # sanitize_items xs"
| "sanitize_items (PStr s # xs) = PStr s # sanitize_items xs"
| "sanitize_items (PList ys # xs) = PList ys # sanitize_items xs"

section \<open>Context analyzer (context\_analyzer.py)\<close>

definition intent_patterns :: "(string \<times> string list) list" where
  "intent_patterns = [
     (''note_making'', [''take notes'', ''make notes'', ''note taking'', ''summarize'',
        ''outline'', ''organize'', ''write down'', ''document'']),
     (''flashcard_generation'', [''flashcards'', ''flash cards'', ''memorize'', ''study cards'',
        ''practice'', ''quiz'', ''test'', ''review'']),
     (''concept_explanation'', [''explain'', ''understand'', ''what is'', ''how does'',
        ''tell me about'', ''describe'', ''clarify'', ''help me understand'']),
     (''quiz_generation'', [''quiz'', ''test'', ''questions'', ''practice problems'',
        ''exam'', ''assessment'', ''challenge''])]"

text \<open>The score of one intent: the number of its patterns found in the lower-cased
  message, divided by the number of its patterns.  Every pattern is a plain string, so
  \<^verbatim>\<open>re.search\<close> is \<^const>\<open>contains\<close>.\<close>

definition pattern_score :: "string \<Rightarrow> string list \<Rightarrow> real" where
  "pattern_score message_lower patterns =
     real (length (filter (contains message_lower) patterns)) / real (length patterns)"

definition intent_scores :: "string \<Rightarrow> (string \<times> real) list" where
  "intent_scores message_lower =
     map (\<lambda>ip. (fst ip, pattern_score message_lower (snd ip))) intent_patterns"

text \<open>\<^verbatim>\<open>max(items, key=lambda x: x[1])\<close>: the first item with the greatest score; a later
  item replaces the best one only when its score is strictly greater.\<close>

fun max_by_score :: "string \<times> real \<Rightarrow> (string \<times> real) list \<Rightarrow> string \<times> real" where
  "max_by_score best [] = best"
| "max_by_score best (x # xs) = max_by_score (if snd x > snd best then x else best) xs"

text \<open>\<^verbatim>\<open>_llm_intent_detection\<close>.  The language model is outside the program: its reply to
  the prompt built from the message is the argument, \<open>None\<close> when the call raised.\<close>

definition llm_intent_detection :: "string option \<Rightarrow> string option" where
  "llm_intent_detection response =
     (case response of
        None \<Rightarrow> None
      | Some r \<Rightarrow>
          (let intent = lower (strip r)
           in if intent \<in> set (map fst intent_patterns) then Some intent else None))"

definition detect_intent :: "(string \<Rightarrow> string option) \<Rightarrow> string \<Rightarrow> py_exception + (string \<times> real)" where
  "detect_intent llm message =
     (let message_lower = lower message
      in case intent_scores message_lower of
           [] \<Rightarrow> Inl ValueError
         | x # xs \<Rightarrow>
             (let best_intent = max_by_score x xs
              in if snd best_intent < 0.5
                 then (case llm_intent_detection (llm message) of
                         Some llm_intent \<Rightarrow> Inr (llm_intent, 0.8)
                       | None \<Rightarrow> Inr best_intent)
                 else Inr best_intent))"

text \<open>Truth value of an optional integer in a condition: present and not zero.\<close>

fun truthy_level :: "int option \<Rightarrow> bool" where
  "truthy_level None = False"
| "truthy_level (Some n) = (n \<noteq> 0)"

definition infer_difficulty :: "ConversationContext \<Rightarrow> string" where
  "infer_difficulty context =
     (let es = emotional_state context; ml = mastery_level context
      in if es = Some CONFUSED then ''easy''
         else if es = Some ANXIOUS then ''easy''
         else if es = Some TIRED then ''easy''
         else if es = Some FOCUSED then
           (if truthy_level ml \<and> the ml \<ge> 7 then ''hard''
            else if truthy_level ml \<and> the ml \<ge> 4 then ''medium''
            else ''easy'')
         else if truthy_level ml then
           (if the ml \<le> 3 then ''easy''
            else if the ml \<le> 6 then ''medium''
            else ''hard'')
         else ''medium'')"

text \<open>The count patterns all have the shape \<^verbatim>\<open>(\d+)\s*(?:w1|w2|...)\<close>.  A match that starts
  at the head of \<open>s\<close> takes the whole run of digits there and the whole run of white space
  after it: the words all start with a letter, so giving back a digit or a space never
  lets the rest match.  Group 1 is that run of digits.  An optional final \<^verbatim>\<open>s?\<close> of a word
  matches the empty string, so the word without it decides.\<close>

definition is_digit :: "char \<Rightarrow> bool" where
  "is_digit c = (c \<in> set ''0123456789'')"

definition digit_value :: "char \<Rightarrow> nat" where
  "digit_value c =
     (case map_of (zip ''0123456789'' [0, 1, 2, 3, 4, 5, 6, 7, 8, 9]) c of
        Some d \<Rightarrow> d
      | None \<Rightarrow> 0)"

text \<open>The number a string of decimal digits writes.\<close>

definition int_of_digits :: "string \<Rightarrow> int" where
  "int_of_digits ds = int (foldl (\<lambda>a c. 10 * a + digit_value c) 0 ds)"

text \<open>\<^verbatim>\<open>int(group)\<close> for a string of decimal digits.  CPython refuses to convert a string of
  more than \<^verbatim>\<open>sys.get_int_max_str_digits()\<close> digits, leading zeros counted, and raises
  \<^verbatim>\<open>ValueError\<close>; the limit is 4300 unless the interpreter is configured otherwise.\<close>

definition int_max_str_digits :: nat where
  "int_max_str_digits = 4300"

definition py_int :: "string \<Rightarrow> py_exception + int" where
  "py_int ds =
     (if length ds > int_max_str_digits then Inl ValueError else Inr (int_of_digits ds))"

definition match_here :: "string list \<Rightarrow> string \<Rightarrow> string option" where
  "match_here words s =
     (let ds = takeWhile is_digit s;
          rest = dropWhile is_space (dropWhile is_digit s)
      in if ds \<noteq> [] \<and> list_ex (starts_with rest) words then Some ds else None)"

text \<open>\<^verbatim>\<open>re.search\<close>: the match at the leftmost position that has one.\<close>

fun re_search :: "string list \<Rightarrow> string \<Rightarrow> string option" where
  "re_search words [] = None"
| "re_search words (c # cs) =
     (case match_here words (c # cs) of
        Some g \<Rightarrow> Some g
      | None \<Rightarrow> re_search words cs)"

definition count_patterns :: "string list list" where
  "count_patterns = [[''question'', ''card'', ''note'', ''item''],
                     [''of'', ''for''],
                     [''more'', ''additional'']]"

text \<open>\<^verbatim>\<open>_extract_count\<close>: the first pattern that matches decides.  The conversion of its
  group is not guarded, so its exception leaves the function.\<close>

fun extract_count_loop :: "string list list \<Rightarrow> string \<Rightarrow> py_exception + int option" where
  "extract_count_loop [] message = Inr None"
| "extract_count_loop (p # ps) message =
     (case re_search p message of
        Some g \<Rightarrow>
          (case py_int g of
             Inl e \<Rightarrow> Inl e
           | Inr n \<Rightarrow> Inr (Some (min (max n 1) 20)))
      | None \<Rightarrow> extract_count_loop ps message)"

definition extract_count :: "string \<Rightarrow> py_exception + int option" where
  "extract_count message = extract_count_loop count_patterns message"

definition map_intent_to_tool :: "string \<Rightarrow> string" where
  "map_intent_to_tool it =
     (case map_of [(''note_making'', ''note_maker''),
                   (''flashcard_generation'', ''flashcard_generator''),
                   (''concept_explanation'', ''concept_explainer''),
                   (''quiz_generation'', ''quiz_generator'')] it of
        Some t \<Rightarrow> t
      | None \<Rightarrow> ''unknown'')"

text \<open>The intent \<^verbatim>\<open>analyze_context\<close> returns from its exception handler.\<close>

definition fallback_intent :: EducationalIntent where
  "fallback_intent = \<lparr>intent_type = ''unknown'', confidence = 0, extracted_parameters = [],
     missing_parameters = [], suggested_tool = ''none''\<rparr>"

section \<open>Parameter extractor (parameter\_extractor.py)\<close>

record ParameterExtractionResult =
  pe_success :: bool
  pe_extracted_parameters :: pdict
  pe_missing_parameters :: "string list"
  pe_confidence_scores :: "(string \<times> real) list"
  pe_extraction_method :: string

text \<open>The extractor's own schema table: the required and the optional parameter names of
  each tool.\<close>

definition extractor_schemas :: "(string \<times> string list \<times> string list) list" where
  "extractor_schemas = [
     (''note_maker'',
        ([''user_info'', ''chat_history'', ''topic'', ''subject'', ''note_taking_style''],
         [''include_examples'', ''include_analogies''])),
     (''flashcard_generator'',
        ([''user_info'', ''topic'', ''count'', ''difficulty'', ''subject''],
         [''include_examples''])),
     (''concept_explainer'',
        ([''user_info'', ''chat_history'', ''concept_to_explain'', ''current_topic'',
          ''desired_depth''],
         []))]"

text \<open>\<^verbatim>\<open>d.update(other)\<close>: every item of \<open>other\<close>, in order, is stored in \<open>d\<close>.\<close>

definition dict_update :: "pdict \<Rightarrow> pdict \<Rightarrow> pdict" where
  "dict_update d other = foldl (\<lambda>acc kv. AList.update (fst kv) (snd kv) acc) d other"

definition infer_note_maker_params :: "ConversationContext \<Rightarrow> pdict" where
  "infer_note_maker_params context =
     (let learning_style = lower (learning_style_summary (ctx_user_info context));
          style = (if contains learning_style ''outline'' then ''outline''
                   else if contains learning_style ''bullet'' then ''bullet_points''
                   else if contains learning_style ''narrative'' then ''narrative''
                   else ''structured'')
      in (''note_taking_style'', PStr style) #
         (if teaching_style context = Some VISUAL
          then [(''include_examples'', PBool True), (''include_analogies'', PBool True)]
          else if teaching_style context = Some DIRECT
          then [(''include_examples'', PBool True), (''include_analogies'', PBool False)]
          else [(''include_examples'', PBool True), (''include_analogies'', PBool False)]))"

definition infer_flashcard_params :: "ConversationContext \<Rightarrow> pdict" where
  "infer_flashcard_params context =
     (let ml = mastery_level context; es = emotional_state context
      in [(''count'', PInt (if truthy_level ml
                            then (if the ml \<le> 3 then 5 else if the ml \<le> 6 then 10 else 15)
                            else 10)),
          (''difficulty'', PStr (if es = Some CONFUSED \<or> es = Some ANXIOUS then ''easy''
                                 else if es = Some FOCUSED \<and> truthy_level ml \<and> the ml \<ge> 7
                                 then ''hard''
                                 else ''medium'')),
          (''include_examples'', PBool True)])"

definition infer_concept_explainer_params :: "ConversationContext \<Rightarrow> pdict" where
  "infer_concept_explainer_params context =
     (let ml = mastery_level context; es = emotional_state context
      in [(''desired_depth'', PStr (if es = Some CONFUSED \<or> es = Some ANXIOUS then ''basic''
                                    else if truthy_level ml then
                                      (if the ml \<le> 3 then ''basic''
                                       else if the ml \<le> 6 then ''intermediate''
                                       else if the ml \<le> 8 then ''advanced''
                                       else ''comprehensive'')
                                    else ''intermediate''))])"

definition infer_from_context :: "ConversationContext \<Rightarrow> string \<Rightarrow> pdict" where
  "infer_from_context context tool =
     dict_update
       [(''user_info'', PDict (user_info_dict (ctx_user_info context))),
        (''chat_history'', PList (map (\<lambda>m. PDict (chat_message_dict m)) (ctx_chat_history context)))]
       (if tool = ''note_maker'' then infer_note_maker_params context
        else if tool = ''flashcard_generator'' then infer_flashcard_params context
        else if tool = ''concept_explainer'' then infer_concept_explainer_params context
        else [])"

definition assign_default_values :: "string \<Rightarrow> pdict" where
  "assign_default_values tool =
     (case map_of [(''note_maker'', [(''include_examples'', PBool True),
                                     (''include_analogies'', PBool False)]),
                   (''flashcard_generator'', [(''count'', PInt 10),
                                              (''include_examples'', PBool True)]),
                   (''concept_explainer'', [])] tool of
        Some d \<Rightarrow> d
      | None \<Rightarrow> [])"

text \<open>The loop of method 4: a default is stored only under a key that is not there yet.\<close>

definition fill_defaults :: "pdict \<Rightarrow> pdict \<Rightarrow> pdict" where
  "fill_defaults params defaults =
     foldl (\<lambda>acc kv. if map_of acc (fst kv) = None then AList.update (fst kv) (snd kv) acc else acc)
       params defaults"

text \<open>\<^verbatim>\<open>_extract_with_multiple_methods\<close>.  The text-to-structured-data capability is outside
  the program: \<open>llm_params\<close> is the dictionary \<^verbatim>\<open>_llm_parameter_extraction\<close> returns, the parsed
  JSON object of the reply, or the empty dictionary when the call or the parse raised.\<close>

definition extract_with_multiple_methods ::
  "pdict \<Rightarrow> EducationalIntent \<Rightarrow> ConversationContext \<Rightarrow> string \<Rightarrow> pdict" where
  "extract_with_multiple_methods llm_params intent context tool =
     (let params1 = dict_update [] (extracted_parameters intent);
          params2 = dict_update params1 llm_params;
          params3 = dict_update params2 (infer_from_context context tool)
      in fill_defaults params3 (assign_default_values tool))"

text \<open>\<^verbatim>\<open>_validate_parameters\<close>: the pair of the kept parameters and the missing names.\<close>

fun required_params_loop :: "pdict \<Rightarrow> string list \<Rightarrow> pdict \<times> string list \<Rightarrow> pdict \<times> string list" where
  "required_params_loop params [] st = st"
| "required_params_loop params (p # ps) (validated, missing) =
     (case map_of params p of
        Some v \<Rightarrow>
          (if v \<noteq> PNone
           then required_params_loop params ps (AList.update p v validated, missing)
           else required_params_loop params ps (validated, missing @ [p]))
      | None \<Rightarrow> required_params_loop params ps (validated, missing @ [p]))"

fun optional_params_loop :: "pdict \<Rightarrow> string list \<Rightarrow> pdict \<Rightarrow> pdict" where
  "optional_params_loop params [] validated = validated"
| "optional_params_loop params (p # ps) validated =
     (case map_of params p of
        Some v \<Rightarrow> optional_params_loop params ps (AList.update p v validated)
      | None \<Rightarrow> optional_params_loop params ps validated)"

definition validate_parameters :: "pdict \<Rightarrow> string list \<times> string list \<Rightarrow> pdict \<times> string list" where
  "validate_parameters params schema =
     (let st = required_params_loop params (fst schema) ([], [])
      in (optional_params_loop params (snd schema) (fst st), snd st))"

text \<open>Truth value of a Python value in a condition.\<close>

fun truthy :: "pval \<Rightarrow> bool" where
  "truthy PNone = False"
| "truthy (PBool b) = b"
| "truthy (PInt n) = (n \<noteq> 0)"
| "truthy (PStr s) = (s \<noteq> [])"
| "truthy (PList xs) = (xs \<noteq> [])"
| "truthy (PDict d) = (d \<noteq> [])"

definition confidence_score :: "string \<Rightarrow> pval \<Rightarrow> real" where
  "confidence_score param v =
     (if param = ''user_info'' \<or> param = ''chat_history'' then 1.0
      else if param \<in> set [''topic'', ''subject''] then (if truthy v then 0.9 else 0.3)
      else if param \<in> set [''difficulty'', ''note_taking_style'', ''desired_depth''] then 0.7
      else if param \<in> set [''count'', ''include_examples'', ''include_analogies''] then 0.5
      else 0.6)"

definition calculate_confidence_scores :: "pdict \<Rightarrow> (string \<times> real) list" where
  "calculate_confidence_scores params =
     foldl (\<lambda>acc kv. AList.update (fst kv) (confidence_score (fst kv) (snd kv)) acc) [] params"

definition extract_parameters ::
  "pdict \<Rightarrow> EducationalIntent \<Rightarrow> ConversationContext \<Rightarrow> ParameterExtractionResult" where
  "extract_parameters llm_params intent context =
     (let tool = suggested_tool intent
      in case map_of extractor_schemas tool of
           None \<Rightarrow>
             \<lparr>pe_success = False, pe_extracted_parameters = [], pe_missing_parameters = [],
              pe_confidence_scores = [], pe_extraction_method = ''error''\<rparr>
         | Some schema \<Rightarrow>
             (let extracted = extract_with_multiple_methods llm_params intent context tool;
                  vm = validate_parameters extracted schema
              in \<lparr>pe_success = (length (snd vm) = 0),
                  pe_extracted_parameters = fst vm,
                  pe_missing_parameters = snd vm,
                  pe_confidence_scores = calculate_confidence_scores (fst vm),
                  pe_extraction_method = ''hybrid''\<rparr>))"

definition ask_for_parameter :: "string \<Rightarrow> ConversationContext \<Rightarrow> string" where
  "ask_for_parameter param context =
     (case map_of
        [(''topic'', ''What specific topic would you like to focus on, ''
                      @ name (ctx_user_info context) @ ''?''),
         (''subject'', ''What subject area is this related to, ''
                      @ name (ctx_user_info context) @ ''?'')] param of
        Some q \<Rightarrow> q
      | None \<Rightarrow> ''Please specify '' @ param)"

definition get_intelligent_default :: "string \<Rightarrow> pval" where
  "get_intelligent_default param =
     (case map_of [(''note_taking_style'', PStr ''structured''),
                   (''difficulty'', PStr ''medium''),
                   (''count'', PInt 10),
                   (''desired_depth'', PStr ''intermediate''),
                   (''include_examples'', PBool True),
                   (''include_analogies'', PBool False)] param of
        Some v \<Rightarrow> v
      | None \<Rightarrow> PNone)"

definition fill_missing_parameters :: "string list \<Rightarrow> ConversationContext \<Rightarrow> string \<Rightarrow> pdict" where
  "fill_missing_parameters missing context tool =
     foldl (\<lambda>filled param.
              AList.update param
                (if param \<in> set [''topic'', ''subject'']
                 then PStr (ask_for_parameter param context)
                 else get_intelligent_default param)
                filled)
       [] missing"

section \<open>Tool orchestrator (tool\_orchestrator.py)\<close>

record OrchestratorState =
  conversation_context :: ConversationContext
  educational_intent :: "EducationalIntent option"
  st_extracted_parameters :: pdict
  tool_request :: "ToolRequest option"
  tool_response :: "ToolResponse option"
  orchestrator_response :: "OrchestratorResponse option"
  error_message :: "string option"
  workflow_step :: string

subsection \<open>The outbound call\<close>

text \<open>The HTTP client is outside the program.  One \<^verbatim>\<open>client.post\<close> either raises (a
  timeout, a connection error, or any other exception, with its text) or returns a response
  with a status code and a body: empty, not parsable as JSON (with the decoder's text), or
  a JSON value.\<close>

datatype http_body = NoContent | NotJson string | Json pval

datatype http_outcome =
    TimeoutException
  | ConnectError
  | OtherException string
  | Response nat http_body

text \<open>What the call depends on: the endpoint table, the client (the outcome of posting a
  request to a URL, which may change from one attempt to the next: its first argument is
  the number of requests posted before), and how the \<^verbatim>\<open>ToolResponse\<close> model validates a value
  that is neither a string nor \<^verbatim>\<open>None\<close> for an optional string field, and neither a
  dictionary nor \<^verbatim>\<open>None\<close> for its optional \<^verbatim>\<open>data\<close> field (it coerces the value or raises a
  validation error, with its text).\<close>

record call_env =
  tool_endpoints :: "(string \<times> string) list"
  http_post :: "nat \<Rightarrow> string \<Rightarrow> ToolRequest \<Rightarrow> http_outcome"
  coerce_str :: "pval \<Rightarrow> string + string"
  coerce_dict :: "pval \<Rightarrow> string + pval"

text \<open>The endpoint table the constructor builds from the configuration.\<close>

definition config_get :: "(string \<times> string) list \<Rightarrow> string \<Rightarrow> string \<Rightarrow> string" where
  "config_get config k dflt = (case map_of config k of Some v \<Rightarrow> v | None \<Rightarrow> dflt)"

definition endpoints_of_config :: "(string \<times> string) list \<Rightarrow> (string \<times> string) list" where
  "endpoints_of_config config =
     [(''note_maker'', config_get config ''NOTE_MAKER_URL'' ''http://localhost:8001''),
      (''flashcard_generator'',
         config_get config ''FLASHCARD_GENERATOR_URL'' ''http://localhost:8002''),
      (''concept_explainer'',
         config_get config ''CONCEPT_EXPLAINER_URL'' ''http://localhost:8003'')]"

definition optional_str :: "call_env \<Rightarrow> pval \<Rightarrow> string + string option" where
  "optional_str env v =
     (case v of
        PNone \<Rightarrow> Inr None
      | PStr s \<Rightarrow> Inr (Some s)
      | _ \<Rightarrow> (case coerce_str env v of Inl e \<Rightarrow> Inl e | Inr s \<Rightarrow> Inr (Some s)))"

definition optional_dict :: "call_env \<Rightarrow> pval \<Rightarrow> string + pval option" where
  "optional_dict env v =
     (case v of
        PNone \<Rightarrow> Inr None
      | PDict d \<Rightarrow> Inr (Some (PDict d))
      | _ \<Rightarrow> (case coerce_dict env v of Inl e \<Rightarrow> Inl e | Inr d \<Rightarrow> Inr (Some d)))"

definition type_name :: "pval \<Rightarrow> string" where
  "type_name v =
     (case v of PNone \<Rightarrow> ''NoneType'' | PBool b \<Rightarrow> ''bool'' | PInt n \<Rightarrow> ''int''
      | PStr s \<Rightarrow> ''str'' | PList xs \<Rightarrow> ''list'' | PDict d \<Rightarrow> ''dict'')"

definition call_error :: "string \<Rightarrow> ToolResponse" where
  "call_error e = \<lparr>success = False, data = None, error = Some (''Tool call failed: '' @ e),
     error_code = Some ''CALL_ERROR''\<rparr>"

text \<open>The handling of a response that arrived.  The left results are the texts of the
  exceptions raised inside the \<^verbatim>\<open>try\<close> block, which the last handler turns into
  \<^verbatim>\<open>CALL_ERROR\<close>.\<close>

definition response_json :: "http_body \<Rightarrow> string + pval" where
  "response_json b =
     (case b of
        NoContent \<Rightarrow> Inl ''Expecting value: line 1 column 1 (char 0)''
      | NotJson e \<Rightarrow> Inl e
      | Json v \<Rightarrow> Inr v)"

definition handle_response :: "call_env \<Rightarrow> nat \<Rightarrow> http_body \<Rightarrow> string + ToolResponse" where
  "handle_response env status body =
     (if status = 200 then
        (case response_json body of
           Inl e \<Rightarrow> Inl e
         | Inr v \<Rightarrow>
             (case optional_dict env v of
                Inl e \<Rightarrow> Inl e
              | Inr d \<Rightarrow> Inr \<lparr>success = True, data = d, error = None, error_code = None\<rparr>))
      else
        (case (if body \<noteq> NoContent then response_json body else Inr (PDict [])) of
           Inl e \<Rightarrow> Inl e
         | Inr (PDict error_data) \<Rightarrow>
             (case optional_str env
                     (case map_of error_data ''error'' of
                        Some v \<Rightarrow> v | None \<Rightarrow> PStr (''HTTP '' @ nat_to_str status)) of
                Inl e \<Rightarrow> Inl e
              | Inr err \<Rightarrow>
                  (case optional_str env
                          (case map_of error_data ''error_code'' of
                             Some v \<Rightarrow> v | None \<Rightarrow> PStr ''HTTP_ERROR'') of
                     Inl e \<Rightarrow> Inl e
                   | Inr code \<Rightarrow>
                       Inr \<lparr>success = False, data = None, error = err, error_code = code\<rparr>))
         | Inr v \<Rightarrow> Inl ([CHR 0x27] @ type_name v @ [CHR 0x27] @ '' object has no attribute ''
                          @ [CHR 0x27] @ ''get'' @ [CHR 0x27])))"

text \<open>\<^verbatim>\<open>_call_educational_tool\<close>.  The second component is the log of the requests posted so
  far, each with its URL; the call appends to it exactly when it reaches \<^verbatim>\<open>client.post\<close>.\<close>

definition call_educational_tool ::
  "call_env \<Rightarrow> ToolRequest \<Rightarrow> (string \<times> ToolRequest) list
     \<Rightarrow> ToolResponse \<times> (string \<times> ToolRequest) list" where
  "call_educational_tool env req sent =
     (case map_of (tool_endpoints env) (tool_name req) of
        None \<Rightarrow>
          (\<lparr>success = False, data = None, error = Some (''Unknown tool: '' @ tool_name req),
            error_code = Some ''UNKNOWN_TOOL''\<rparr>, sent)
      | Some endpoint \<Rightarrow>
          (if endpoint = [] then
             (\<lparr>success = False, data = None, error = Some (''Unknown tool: '' @ tool_name req),
               error_code = Some ''UNKNOWN_TOOL''\<rparr>, sent)
           else
             (let url = endpoint @ ''/generate'';
                  sent' = sent @ [(url, req)]
              in case http_post env (length sent) url req of
                   TimeoutException \<Rightarrow>
                     (\<lparr>success = False, data = None, error = Some ''Tool request timed out'',
                       error_code = Some ''TIMEOUT''\<rparr>, sent')
                 | ConnectError \<Rightarrow>
                     (\<lparr>success = False, data = None,
                       error = Some (''Could not connect to '' @ tool_name req @ '' service''),
                       error_code = Some ''CONNECTION_ERROR''\<rparr>, sent')
                 | OtherException e \<Rightarrow> (call_error e, sent')
                 | Response status body \<Rightarrow>
                     (case handle_response env status body of
                        Inl e \<Rightarrow> (call_error e, sent')
                      | Inr r \<Rightarrow> (r, sent')))))"

subsection \<open>The workflow\<close>

text \<open>The context analyzer and the text-to-structured-data capability are the two
  collaborators of the first two nodes: \<open>analyzer\<close> is \<^verbatim>\<open>analyze_context\<close>, which catches
  every exception itself and always returns an intent, and \<open>llm\<close> gives the dictionary
  \<^verbatim>\<open>_llm_parameter_extraction\<close> returns for a context and a tool.\<close>

definition initial_state :: "ConversationContext \<Rightarrow> OrchestratorState" where
  "initial_state context = \<lparr>conversation_context = context, educational_intent = None,
     st_extracted_parameters = [], tool_request = None, tool_response = None,
     orchestrator_response = None, error_message = None, workflow_step = ''start''\<rparr>"

definition analyze_context_node ::
  "(ConversationContext \<Rightarrow> EducationalIntent) \<Rightarrow> OrchestratorState \<Rightarrow> OrchestratorState" where
  "analyze_context_node analyzer st =
     st\<lparr>educational_intent := Some (analyzer (conversation_context st)),
        workflow_step := ''context_analyzed''\<rparr>"

definition extract_parameters_node ::
  "(ConversationContext \<Rightarrow> string \<Rightarrow> pdict) \<Rightarrow> OrchestratorState \<Rightarrow> OrchestratorState" where
  "extract_parameters_node llm st =
     (let context = conversation_context st
      in case educational_intent st of
           None \<Rightarrow> st\<lparr>error_message := Some ''No educational intent identified'',
                      workflow_step := ''error''\<rparr>
         | Some intent \<Rightarrow>
             (let extraction_result =
                    extract_parameters (llm context (suggested_tool intent)) intent context
              in if pe_success extraction_result
                 then st\<lparr>st_extracted_parameters := pe_extracted_parameters extraction_result,
                         workflow_step := ''parameters_extracted''\<rparr>
                 else
                   (let filled_params =
                          fill_missing_parameters (pe_missing_parameters extraction_result)
                            context (suggested_tool intent)
                    in st\<lparr>st_extracted_parameters :=
                             dict_update
                               (dict_update [] (pe_extracted_parameters extraction_result))
                               filled_params,
                          workflow_step := ''parameters_filled''\<rparr>)))"

definition validate_request_node :: "OrchestratorState \<Rightarrow> OrchestratorState" where
  "validate_request_node st =
     (let params = st_extracted_parameters st; context = conversation_context st
      in case educational_intent st of
           None \<Rightarrow> st\<lparr>error_message := Some ''Missing intent or parameters'',
                      workflow_step := ''error''\<rparr>
         | Some intent \<Rightarrow>
             (if params = []
              then st\<lparr>error_message := Some ''Missing intent or parameters'',
                      workflow_step := ''error''\<rparr>
              else st\<lparr>tool_request := Some \<lparr>tool_name = suggested_tool intent,
                                            parameters = params,
                                            req_user_info = ctx_user_info context,
                                            req_chat_history = ctx_chat_history context\<rparr>,
                      workflow_step := ''request_validated''\<rparr>))"

definition should_execute_tool :: "OrchestratorState \<Rightarrow> string" where
  "should_execute_tool st = (if workflow_step st = ''error'' then ''error'' else ''execute'')"

definition execute_tool_node ::
  "call_env \<Rightarrow> OrchestratorState \<times> (string \<times> ToolRequest) list
     \<Rightarrow> OrchestratorState \<times> (string \<times> ToolRequest) list" where
  "execute_tool_node env sl =
     (case tool_request (fst sl) of
        None \<Rightarrow> ((fst sl)\<lparr>error_message := Some ''No tool request to execute'',
                          workflow_step := ''error''\<rparr>, snd sl)
      | Some req \<Rightarrow>
          (let rl = call_educational_tool env req (snd sl)
           in ((fst sl)\<lparr>tool_response := Some (fst rl), workflow_step := ''tool_executed''\<rparr>,
               snd rl)))"

definition format_response_node :: "OrchestratorState \<Rightarrow> OrchestratorState" where
  "format_response_node st =
     st\<lparr>orchestrator_response := Some
          \<lparr>resp_success = (case tool_response st of Some r \<Rightarrow> success r | None \<Rightarrow> False),
           resp_tool_response = tool_response st,
           resp_educational_intent = educational_intent st,
           resp_error_message =
             (case tool_response st of
                Some r \<Rightarrow> if \<not> success r then error r else None
              | None \<Rightarrow> None),
           resp_conversation_context = Some (conversation_context st)\<rparr>,
        workflow_step := ''response_formatted''\<rparr>"

definition handle_error_node :: "OrchestratorState \<Rightarrow> OrchestratorState" where
  "handle_error_node st =
     st\<lparr>orchestrator_response := Some
          \<lparr>resp_success = False,
           resp_tool_response = None,
           resp_educational_intent = educational_intent st,
           resp_error_message = error_message st,
           resp_conversation_context = Some (conversation_context st)\<rparr>,
        workflow_step := ''error_handled''\<rparr>"

text \<open>The compiled graph: analyze, extract, validate, then the conditional edge to either
  the tool execution followed by the formatting, or the error handler.\<close>

definition run_workflow ::
  "call_env \<Rightarrow> (ConversationContext \<Rightarrow> EducationalIntent) \<Rightarrow> (ConversationContext \<Rightarrow> string \<Rightarrow> pdict)
     \<Rightarrow> ConversationContext \<Rightarrow> OrchestratorState \<times> (string \<times> ToolRequest) list" where
  "run_workflow env analyzer llm context =
     (let st1 = analyze_context_node analyzer (initial_state context);
          st2 = extract_parameters_node llm st1;
          st3 = validate_request_node st2
      in if should_execute_tool st3 = ''error''
         then (handle_error_node st3, [])
         else (let sl = execute_tool_node env (st3, [])
               in (format_response_node (fst sl), snd sl)))"

definition orchestrate ::
  "call_env \<Rightarrow> (ConversationContext \<Rightarrow> EducationalIntent) \<Rightarrow> (ConversationContext \<Rightarrow> string \<Rightarrow> pdict)
     \<Rightarrow> ConversationContext \<Rightarrow> OrchestratorResponse option" where
  "orchestrate env analyzer llm context =
     orchestrator_response (fst (run_workflow env analyzer llm context))"

section \<open>Predicates and sample inputs of the properties\<close>

text \<open>A parameter bag whose \<^verbatim>\<open>user_info\<close>, when present, is a dictionary and whose
  \<^verbatim>\<open>chat_history\<close>, when present, is a list: on such a bag the two structural checks raise
  no exception.\<close>

definition well_shaped :: "pdict \<Rightarrow> bool" where
  "well_shaped ps =
     ((case map_of ps ''user_info'' of None \<Rightarrow> True | Some (PDict d) \<Rightarrow> True | Some v \<Rightarrow> False) \<and>
      (case map_of ps ''chat_history'' of None \<Rightarrow> True | Some (PList xs) \<Rightarrow> True | Some v \<Rightarrow> False))"

text \<open>Every entry of the first dictionary is an entry of the second.\<close>

definition sub_dict :: "pdict \<Rightarrow> pdict \<Rightarrow> bool" where
  "sub_dict vd ps = (\<forall>k v. map_of vd k = Some v \<longrightarrow> map_of ps k = Some v)"

definition sample_user :: UserInfo where
  "sample_user = \<lparr>user_id = ''s1'', name = ''Ann'', grade_level = ''10'',
     learning_style_summary = ''visual'', emotional_state_summary = ''focused'',
     mastery_level_summary = ''level 6''\<rparr>"

definition sample_note_request :: "string \<Rightarrow> ToolRequest" where
  "sample_note_request r =
     \<lparr>tool_name = ''note_maker'',
      parameters = [(''user_info'', PDict (user_info_dict sample_user)),
        (''chat_history'', PList [PDict [(''role'', PStr r), (''content'', PStr ''hi'')]]),
        (''topic'', PStr ''Photosynthesis''), (''subject'', PStr ''Biology''),
        (''note_taking_style'', PStr ''outline'')],
      req_user_info = sample_user, req_chat_history = []\<rparr>"

text \<open>The patterns of one intent.\<close>

definition patterns_of :: "string \<Rightarrow> string list" where
  "patterns_of intent = (case map_of intent_patterns intent of Some ps \<Rightarrow> ps | None \<Rightarrow> [])"


definition sample_context :: "string \<Rightarrow> EmotionalState option \<Rightarrow> int option \<Rightarrow> ConversationContext" where
  "sample_context msg es ml = \<lparr>ctx_user_info = sample_user, ctx_chat_history = [],
     current_message = msg, teaching_style = None, emotional_state = es, mastery_level = ml\<rparr>"

definition sample_intent :: "string \<Rightarrow> pdict \<Rightarrow> EducationalIntent" where
  "sample_intent it ps = \<lparr>intent_type = it, confidence = 0.25, extracted_parameters = ps,
     missing_parameters = [], suggested_tool = map_intent_to_tool it\<rparr>"

text \<open>An environment whose client gives the same outcome to every request and whose
  response model rejects what it would have to coerce.\<close>

definition sample_env :: "http_outcome \<Rightarrow> call_env" where
  "sample_env out = \<lparr>tool_endpoints = endpoints_of_config [], http_post = (\<lambda>n url req. out),
     coerce_str = (\<lambda>v. Inl ''validation error''), coerce_dict = (\<lambda>v. Inl ''validation error'')\<rparr>"





section \<open>Properties of the schema validator\<close>

lemmas validator_defs =
  validate_tool_request_def tool_schemas_def note_maker_schema_def flashcard_generator_schema_def
  concept_explainer_schema_def validate_body_def
  validate_field_def validate_type_def type_mapping_def validate_constraints_def no_constraints_def
  str_constraint_errors_def int_constraint_errors_def
  user_info_step_def validate_user_info_def user_info_required_fields_def
  user_info_field_constraints_def chat_history_step_def validate_chat_history_def
  message_errors_def role_constraints_def content_constraints_def array_min_length_def
  array_max_length_def user_info_dict_def sample_user_def sample_note_request_def

subsection \<open>Errors only accumulate\<close>

lemma required_loop_mono:
  "set errs \<subseteq> set (fst (required_loop schema ps fs (errs, vd)))"
proof (induction fs arbitrary: errs vd)
  case Nil
  show ?case by simp
next
  case (Cons f fs)
  show ?case
  proof (cases "map_of ps f")
    case None
    with Cons[of "errs @ [VError MISSING_REQUIRED f ''MISSING_REQUIRED'']" vd] show ?thesis by simp
  next
    case (Some v)
    with Cons[of errs "AList.update f v vd"] Cons[of "errs @ snd (validate_field f v schema)" vd]
    show ?thesis by simp
  qed
qed

lemma required_loop_missing:
  "f \<in> set fs \<Longrightarrow> map_of ps f = None \<Longrightarrow>
   VError MISSING_REQUIRED f ''MISSING_REQUIRED'' \<in> set (fst (required_loop schema ps fs (errs, vd)))"
proof (induction fs arbitrary: errs vd)
  case Nil
  then show ?case by simp
next
  case (Cons g fs)
  show ?case
  proof (cases "g = f")
    case True
    have "set (errs @ [VError MISSING_REQUIRED f ''MISSING_REQUIRED''])
            \<subseteq> set (fst (required_loop schema ps fs (errs @ [VError MISSING_REQUIRED f ''MISSING_REQUIRED''], vd)))"
      by (rule required_loop_mono)
    with True Cons.prems show ?thesis by auto
  next
    case False
    with Cons.prems have "f \<in> set fs" by simp
    from Cons.IH[OF this Cons.prems(2)] show ?thesis
      by (cases "map_of ps g") simp_all
  qed
qed

lemma optional_loop_mono:
  "set errs \<subseteq> set (fst (optional_loop schema ps fs (errs, vd)))"
proof (induction fs arbitrary: errs vd)
  case Nil
  show ?case by simp
next
  case (Cons f fs)
  show ?case
  proof (cases "map_of ps f")
    case None
    with Cons[of errs vd] show ?thesis by simp
  next
    case (Some v)
    with Cons[of errs "AList.update f v vd"] Cons[of "errs @ snd (validate_field f v schema)" vd]
    show ?thesis by simp
  qed
qed

lemma user_info_step_mono: "user_info_step ps errs = Inr errs' \<Longrightarrow> set errs \<subseteq> set errs'"
  by (auto simp: user_info_step_def split: option.splits sum.splits if_splits)

lemma chat_history_step_mono: "chat_history_step ps errs = Inr errs' \<Longrightarrow> set errs \<subseteq> set errs'"
  by (auto simp: chat_history_step_def split: option.splits sum.splits if_splits)

lemma validate_body_missing:
  assumes "f \<in> set (required_fields schema)" "map_of ps f = None"
    and "validate_body schema ps = Inr (errs, vd)"
  shows "VError MISSING_REQUIRED f ''MISSING_REQUIRED'' \<in> set errs"
proof -
  let ?st1 = "required_loop schema ps (required_fields schema) ([], [])"
  let ?st2 = "optional_loop schema ps (optional_fields schema) ?st1"
  let ?e = "VError MISSING_REQUIRED f ''MISSING_REQUIRED''"
  have 1: "?e \<in> set (fst ?st1)" using assms(1,2) by (rule required_loop_missing)
  have "set (fst ?st1) \<subseteq> set (fst ?st2)"
    using optional_loop_mono[of "fst ?st1" schema ps "optional_fields schema" "snd ?st1"] by simp
  with 1 have 2: "?e \<in> set (fst ?st2)" by blast
  from assms(3) obtain errs3 where 3: "user_info_step ps (fst ?st2) = Inr errs3"
    and 4: "chat_history_step ps errs3 = Inr errs"
    by (auto simp: validate_body_def Let_def split: sum.splits)
  from 2 user_info_step_mono[OF 3] chat_history_step_mono[OF 4] show ?thesis by blast
qed

lemma user_info_loop_dict: "\<exists>es. user_info_loop (PDict d) fs errs = Inr es"
proof (induction fs arbitrary: errs)
  case Nil
  show ?case by simp
next
  case (Cons f fs)
  show ?case
  proof (cases "map_of d f")
    case None
    with Cons show ?thesis by simp
  next
    case (Some v)
    with Cons show ?thesis by simp
  qed
qed

lemma well_shaped_no_raise: "well_shaped ps \<Longrightarrow> \<exists>r. validate_body schema ps = Inr r"
proof -
  assume w: "well_shaped ps"
  have u: "\<exists>es. user_info_step ps errs = Inr es" for errs
  proof (cases "map_of ps ''user_info''")
    case None
    then show ?thesis by (simp add: user_info_step_def)
  next
    case (Some v)
    with w obtain d where "v = PDict d" by (cases v) (auto simp: well_shaped_def)
    with Some user_info_loop_dict[of d user_info_required_fields "[]"] show ?thesis
      by (auto simp: user_info_step_def validate_user_info_def)
  qed
  have c: "\<exists>es. chat_history_step ps errs = Inr es" for errs
  proof (cases "map_of ps ''chat_history''")
    case None
    then show ?thesis by (simp add: chat_history_step_def)
  next
    case (Some v)
    with w obtain xs where "v = PList xs" by (cases v) (auto simp: well_shaped_def)
    with Some show ?thesis
      by (auto simp: chat_history_step_def validate_chat_history_def Let_def)
  qed
  let ?st2 = "optional_loop schema ps (optional_fields schema)
                (required_loop schema ps (required_fields schema) ([], []))"
  from u obtain e3 where 3: "user_info_step ps (fst ?st2) = Inr e3" by blast
  from c obtain e4 where 4: "chat_history_step ps e3 = Inr e4" by blast
  from 3 4 show ?thesis by (simp add: validate_body_def Let_def)
qed

lemma result_shape:
  "is_valid (validate_tool_request req) = (errors (validate_tool_request req) = []) \<and>
   (validated_data (validate_tool_request req) \<noteq> None) = is_valid (validate_tool_request req)"
  by (simp add: validate_tool_request_def split: option.splits sum.splits prod.splits)

text \<open>What holds for every request: the result is valid exactly when its error list is
  empty, and \<^verbatim>\<open>validated_data\<close> is present exactly when the result is valid.  For a request to
  a known tool that lacks a required field the result is invalid with no
  \<^verbatim>\<open>validated_data\<close>, and its errors contain the code \<^verbatim>\<open>MISSING_REQUIRED\<close> unless a structural
  check raised, which it does not when \<^verbatim>\<open>user_info\<close> is absent or a dictionary and
  \<^verbatim>\<open>chat_history\<close> is absent or a list.\<close>

lemma validation_result_general:
  "is_valid (validate_tool_request req) = (errors (validate_tool_request req) = []) \<and>
   (validated_data (validate_tool_request req) \<noteq> None) = is_valid (validate_tool_request req) \<and>
   (map_of tool_schemas (tool_name req) = Some schema \<and> f \<in> set (required_fields schema) \<and>
    map_of (parameters req) f = None \<longrightarrow>
      \<not> is_valid (validate_tool_request req) \<and>
      validated_data (validate_tool_request req) = None \<and>
      (''MISSING_REQUIRED'' \<in> set (map err_code (errors (validate_tool_request req))) \<or>
       errors (validate_tool_request req) = [VError SCHEMA_MISMATCH ''general'' ''VALIDATION_ERROR'']) \<and>
      (well_shaped (parameters req) \<longrightarrow>
        ''MISSING_REQUIRED'' \<in> set (map err_code (errors (validate_tool_request req)))))"
proof -
  let ?r = "validate_tool_request req"
  have shape: "is_valid ?r = (errors ?r = [])" "(validated_data ?r \<noteq> None) = is_valid ?r"
    using result_shape[of req] by simp_all
  have main: "\<not> is_valid ?r \<and> validated_data ?r = None \<and>
      (''MISSING_REQUIRED'' \<in> set (map err_code (errors ?r)) \<or>
       errors ?r = [VError SCHEMA_MISMATCH ''general'' ''VALIDATION_ERROR'']) \<and>
      (well_shaped (parameters req) \<longrightarrow> ''MISSING_REQUIRED'' \<in> set (map err_code (errors ?r)))"
    if k: "map_of tool_schemas (tool_name req) = Some schema"
      and m: "f \<in> set (required_fields schema)" "map_of (parameters req) f = None"
  proof (cases "validate_body schema (parameters req)")
    case (Inl e)
    with k have "errors ?r = [VError SCHEMA_MISMATCH ''general'' ''VALIDATION_ERROR'']"
      "\<not> is_valid ?r" "validated_data ?r = None"
      by (simp_all add: validate_tool_request_def)
    moreover from Inl well_shaped_no_raise[of "parameters req" schema]
    have "\<not> well_shaped (parameters req)" by auto
    ultimately show ?thesis by simp
  next
    case (Inr p)
    obtain errs vd where p: "p = (errs, vd)" by (cases p)
    from validate_body_missing[OF m Inr[unfolded p]]
    have mem: "VError MISSING_REQUIRED f ''MISSING_REQUIRED'' \<in> set errs" .
    then have ne: "errs \<noteq> []" by auto
    from k Inr p have e: "errors ?r = errs" by (simp add: validate_tool_request_def)
    from mem have "err_code (VError MISSING_REQUIRED f ''MISSING_REQUIRED'') \<in> err_code ` set errs"
      by (rule imageI)
    then have c: "''MISSING_REQUIRED'' \<in> set (map err_code (errors ?r))" using e by simp
    from ne e shape show ?thesis using c by auto
  qed
  from shape main show ?thesis by blast
qed

text \<open>When \<^verbatim>\<open>user_info\<close> is the integer 5, the loop over the required fields of \<^verbatim>\<open>note_maker\<close>
  has recorded the type error and the four missing fields by the time
  \<^verbatim>\<open>_validate_user_info\<close> raises on \<^verbatim>\<open>'user_id' not in 5\<close>.\<close>

lemma errors_accumulated_before_raise:
  "fst (required_loop note_maker_schema [(''user_info'', PInt 5)]
          (required_fields note_maker_schema) ([], [])) =
     [VError INVALID_TYPE ''user_info'' ''INVALID_TYPE'',
      VError MISSING_REQUIRED ''chat_history'' ''MISSING_REQUIRED'',
      VError MISSING_REQUIRED ''topic'' ''MISSING_REQUIRED'',
      VError MISSING_REQUIRED ''subject'' ''MISSING_REQUIRED'',
      VError MISSING_REQUIRED ''note_taking_style'' ''MISSING_REQUIRED''] \<and>
   validate_user_info (PInt 5) = Inl TypeError"
  by (simp add: validator_defs)

text \<open>A \<^verbatim>\<open>user_info\<close> that is a string fails the same type check and goes through the same
  structural check without raising: the errors of the missing fields are kept.\<close>

lemma user_info_string_keeps_missing:
  "''MISSING_REQUIRED'' \<in> set (map err_code (errors (validate_tool_request
      \<lparr>tool_name = ''note_maker'', parameters = [(''user_info'', PStr ''abc'')],
       req_user_info = sample_user, req_chat_history = []\<rparr>)))"
  by (simp add: validator_defs)

text \<open>
  Claim C2 at a failing input: a \<^verbatim>\<open>note_maker\<close> request whose only parameter is \<^verbatim>\<open>user_info\<close>
  with the integer 5 lacks the required field \<^verbatim>\<open>topic\<close>, and the result is the one of the
  exception handler, whose only error has the code \<^verbatim>\<open>VALIDATION_ERROR\<close>: no error has the code
  \<^verbatim>\<open>MISSING_REQUIRED\<close>.
\<close>

theorem C2_user_info_int_discards_errors:
  "map_of tool_schemas ''note_maker'' = Some note_maker_schema \<and>
   ''topic'' \<in> set (required_fields note_maker_schema) \<and>
   map_of [(''user_info'', PInt 5)] ''topic'' = None \<and>
   validate_tool_request
     \<lparr>tool_name = ''note_maker'', parameters = [(''user_info'', PInt 5)],
      req_user_info = sample_user, req_chat_history = []\<rparr>
   = \<lparr>is_valid = False, errors = [VError SCHEMA_MISMATCH ''general'' ''VALIDATION_ERROR''],
      warnings = [], validated_data = None\<rparr>"
  by (simp add: validator_defs)

subsection \<open>Validating validated data again\<close>

lemma sub_dict_update:
  "sub_dict vd ps \<Longrightarrow> map_of ps f = Some v \<Longrightarrow> sub_dict (AList.update f v vd) ps"
  by (simp add: sub_dict_def update_conv')

lemma required_loop_sub:
  "sub_dict vd ps \<Longrightarrow> sub_dict (snd (required_loop schema ps fs (errs, vd))) ps"
proof (induction fs arbitrary: errs vd)
  case Nil
  then show ?case by simp
next
  case (Cons f fs)
  show ?case
  proof (cases "map_of ps f")
    case None
    with Cons show ?thesis by simp
  next
    case (Some v)
    with Cons.prems have "sub_dict (AList.update f v vd) ps" by (simp add: sub_dict_update)
    with Some Cons show ?thesis by simp
  qed
qed

lemma optional_loop_sub:
  "sub_dict vd ps \<Longrightarrow> sub_dict (snd (optional_loop schema ps fs (errs, vd))) ps"
proof (induction fs arbitrary: errs vd)
  case Nil
  then show ?case by simp
next
  case (Cons f fs)
  show ?case
  proof (cases "map_of ps f")
    case None
    with Cons show ?thesis by simp
  next
    case (Some v)
    with Cons.prems have "sub_dict (AList.update f v vd) ps" by (simp add: sub_dict_update)
    with Some Cons show ?thesis by simp
  qed
qed

lemma required_loop_keeps:
  "map_of vd k \<noteq> None \<Longrightarrow> map_of (snd (required_loop schema ps fs (errs, vd))) k \<noteq> None"
proof (induction fs arbitrary: errs vd)
  case Nil
  then show ?case by simp
next
  case (Cons f fs)
  show ?case
  proof (cases "map_of ps f")
    case None
    with Cons show ?thesis by simp
  next
    case (Some v)
    from Cons.prems have "map_of (AList.update f v vd) k \<noteq> None" by (simp add: update_conv')
    with Some Cons show ?thesis by simp
  qed
qed

lemma optional_loop_keeps:
  "map_of vd k \<noteq> None \<Longrightarrow> map_of (snd (optional_loop schema ps fs (errs, vd))) k \<noteq> None"
proof (induction fs arbitrary: errs vd)
  case Nil
  then show ?case by simp
next
  case (Cons f fs)
  show ?case
  proof (cases "map_of ps f")
    case None
    with Cons show ?thesis by simp
  next
    case (Some v)
    from Cons.prems have "map_of (AList.update f v vd) k \<noteq> None" by (simp add: update_conv')
    with Some Cons show ?thesis by simp
  qed
qed

lemma required_loop_errs_nil:
  "fst (required_loop schema ps fs (errs, vd)) = [] \<Longrightarrow> errs = []"
proof (induction fs arbitrary: errs vd)
  case Nil
  then show ?case by simp
next
  case (Cons f fs)
  then show ?case
    by (cases "map_of ps f") (auto split: if_splits)
qed

lemma optional_loop_errs_nil:
  "fst (optional_loop schema ps fs (errs, vd)) = [] \<Longrightarrow> errs = []"
proof (induction fs arbitrary: errs vd)
  case Nil
  then show ?case by simp
next
  case (Cons f fs)
  then show ?case
    by (cases "map_of ps f") (auto split: if_splits)
qed

lemma required_loop_valid_present:
  "fst (required_loop schema ps fs (errs, vd)) = [] \<Longrightarrow> f \<in> set fs \<Longrightarrow>
   map_of (snd (required_loop schema ps fs (errs, vd))) f \<noteq> None"
proof (induction fs arbitrary: errs vd)
  case Nil
  then show ?case by simp
next
  case (Cons g fs)
  show ?case
  proof (cases "map_of ps g")
    case None
    from Cons.prems(1) None
    have "fst (required_loop schema ps fs (errs @ [VError MISSING_REQUIRED g ''MISSING_REQUIRED''], vd)) = []"
      by simp
    from required_loop_errs_nil[OF this] show ?thesis by simp
  next
    case (Some v)
    show ?thesis
    proof (cases "fst (validate_field g v schema)")
      case True
      with Some Cons.prems(1)
      have e: "fst (required_loop schema ps fs (errs, AList.update g v vd)) = []" by simp
      show ?thesis
      proof (cases "f = g")
        case True
        have "map_of (AList.update g v vd) g \<noteq> None" by (simp add: update_conv')
        from required_loop_keeps[OF this] Some \<open>fst (validate_field g v schema)\<close> True
        show ?thesis by simp
      next
        case False
        with Cons.prems(2) have "f \<in> set fs" by simp
        from Cons.IH[OF e this] Some True show ?thesis by simp
      qed
    next
      case False
      with Some Cons.prems(1)
      have e: "fst (required_loop schema ps fs (errs @ snd (validate_field g v schema), vd)) = []"
        by simp
      from required_loop_errs_nil[OF e] have "snd (validate_field g v schema) = []" by simp
      with False show ?thesis
        by (auto simp: validate_field_def Let_def split: option.splits)
    qed
  qed
qed

lemma optional_loop_valid_present:
  "fst (optional_loop schema ps fs (errs, vd)) = [] \<Longrightarrow> f \<in> set fs \<Longrightarrow> map_of ps f \<noteq> None \<Longrightarrow>
   map_of (snd (optional_loop schema ps fs (errs, vd))) f \<noteq> None"
proof (induction fs arbitrary: errs vd)
  case Nil
  then show ?case by simp
next
  case (Cons g fs)
  show ?case
  proof (cases "map_of ps g")
    case None
    with Cons.prems have "f \<noteq> g" by auto
    with Cons.prems(2) have "f \<in> set fs" by simp
    from Cons.IH[of errs vd] Cons.prems(1,3) None this show ?thesis by simp
  next
    case (Some v)
    show ?thesis
    proof (cases "fst (validate_field g v schema)")
      case True
      with Some Cons.prems(1)
      have e: "fst (optional_loop schema ps fs (errs, AList.update g v vd)) = []" by simp
      show ?thesis
      proof (cases "f = g")
        case True
        have "map_of (AList.update g v vd) g \<noteq> None" by (simp add: update_conv')
        from optional_loop_keeps[OF this] Some \<open>fst (validate_field g v schema)\<close> True
        show ?thesis by simp
      next
        case False
        with Cons.prems(2) have "f \<in> set fs" by simp
        from Cons.IH[OF e this Cons.prems(3)] Some True show ?thesis by simp
      qed
    next
      case False
      with Some Cons.prems(1)
      have e: "fst (optional_loop schema ps fs (errs @ snd (validate_field g v schema), vd)) = []"
        by simp
      from optional_loop_errs_nil[OF e] have "snd (validate_field g v schema) = []" by simp
      with False show ?thesis
        by (auto simp: validate_field_def Let_def split: option.splits)
    qed
  qed
qed

lemma required_loop_cong:
  "\<forall>f\<in>set fs. map_of ps' f = map_of ps f \<Longrightarrow>
   required_loop schema ps' fs st = required_loop schema ps fs st"
proof (induction fs arbitrary: st)
  case Nil
  show ?case by simp
next
  case (Cons f fs)
  obtain errs vd where st: "st = (errs, vd)" by (cases st)
  from Cons.prems have 1: "map_of ps' f = map_of ps f" and 2: "\<forall>f\<in>set fs. map_of ps' f = map_of ps f"
    by simp_all
  show ?case unfolding st using 1 Cons.IH[OF 2] by (simp split: option.splits)
qed

lemma optional_loop_cong:
  "\<forall>f\<in>set fs. map_of ps' f = map_of ps f \<Longrightarrow>
   optional_loop schema ps' fs st = optional_loop schema ps fs st"
proof (induction fs arbitrary: st)
  case Nil
  show ?case by simp
next
  case (Cons f fs)
  obtain errs vd where st: "st = (errs, vd)" by (cases st)
  from Cons.prems have 1: "map_of ps' f = map_of ps f" and 2: "\<forall>f\<in>set fs. map_of ps' f = map_of ps f"
    by simp_all
  show ?case unfolding st using 1 Cons.IH[OF 2] by (simp split: option.splits)
qed

lemma user_info_step_nil:
  "user_info_step ps errs = Inr [] \<Longrightarrow> errs = []"
  by (auto simp: user_info_step_def split: option.splits sum.splits if_splits)

lemma chat_history_step_nil:
  "chat_history_step ps errs = Inr [] \<Longrightarrow> errs = []"
  by (auto simp: chat_history_step_def split: option.splits sum.splits if_splits)

lemma user_info_step_sub:
  "user_info_step ps [] = Inr [] \<Longrightarrow> sub_dict vd ps \<Longrightarrow> user_info_step vd [] = Inr []"
proof (cases "map_of vd ''user_info''")
  case None
  then show ?thesis by (simp add: user_info_step_def)
next
  case (Some v)
  assume "sub_dict vd ps" and a: "user_info_step ps [] = Inr []"
  with Some have "map_of ps ''user_info'' = Some v" by (simp add: sub_dict_def)
  with Some a show ?thesis by (simp add: user_info_step_def)
qed

lemma chat_history_step_sub:
  "chat_history_step ps [] = Inr [] \<Longrightarrow> sub_dict vd ps \<Longrightarrow> chat_history_step vd [] = Inr []"
proof (cases "map_of vd ''chat_history''")
  case None
  then show ?thesis by (simp add: chat_history_step_def)
next
  case (Some v)
  assume "sub_dict vd ps" and a: "chat_history_step ps [] = Inr []"
  with Some have "map_of ps ''chat_history'' = Some v" by (simp add: sub_dict_def)
  with Some a show ?thesis by (simp add: chat_history_step_def)
qed

lemma validate_body_idem:
  assumes "validate_body schema ps = Inr ([], vd)"
  shows "validate_body schema vd = Inr ([], vd)"
proof -
  let ?st1 = "required_loop schema ps (required_fields schema) ([], [])"
  let ?st2 = "optional_loop schema ps (optional_fields schema) ?st1"
  from assms obtain errs3 where 3: "user_info_step ps (fst ?st2) = Inr errs3"
    and 4: "chat_history_step ps errs3 = Inr []" and vd: "vd = snd ?st2"
    by (auto simp: validate_body_def Let_def split: sum.splits)
  from chat_history_step_nil[OF 4] have e3: "errs3 = []" .
  from user_info_step_nil[OF 3[unfolded e3]] have e2: "fst ?st2 = []" .
  obtain e1 v1 where st1: "?st1 = (e1, v1)" by (cases ?st1)
  from e2 st1 have "fst (optional_loop schema ps (optional_fields schema) (e1, v1)) = []" by simp
  from optional_loop_errs_nil[OF this] have e1: "e1 = []" .
  have sub0: "sub_dict [] ps" by (simp add: sub_dict_def)
  from required_loop_sub[OF sub0, of schema "required_fields schema" "[]"] st1
  have sub1: "sub_dict v1 ps" by simp
  from optional_loop_sub[OF sub1, of schema "optional_fields schema" e1] st1 vd
  have sub2: "sub_dict vd ps" by simp
  have req: "map_of vd f = map_of ps f" if "f \<in> set (required_fields schema)" for f
  proof -
    from st1 e1 have "fst (required_loop schema ps (required_fields schema) ([], [])) = []" by simp
    from required_loop_valid_present[OF this that] st1 have "map_of v1 f \<noteq> None" by simp
    from optional_loop_keeps[OF this, of schema ps "optional_fields schema" e1] st1 vd
    have "map_of vd f \<noteq> None" by simp
    with sub2 show ?thesis by (auto simp: sub_dict_def)
  qed
  have opt: "map_of vd f = map_of ps f" if "f \<in> set (optional_fields schema)" for f
  proof (cases "map_of ps f")
    case None
    with sub2 show ?thesis by (cases "map_of vd f") (auto simp: sub_dict_def)
  next
    case (Some v)
    from e2 st1 have "fst (optional_loop schema ps (optional_fields schema) (e1, v1)) = []" by simp
    from optional_loop_valid_present[OF this that] Some st1 vd have "map_of vd f \<noteq> None" by simp
    with sub2 show ?thesis by (auto simp: sub_dict_def)
  qed
  have c1: "required_loop schema vd (required_fields schema) ([], []) = ?st1"
    by (rule required_loop_cong) (simp add: req)
  have c2: "optional_loop schema vd (optional_fields schema) ?st1 = ?st2"
    by (rule optional_loop_cong) (simp add: opt)
  have st2: "?st2 = ([], vd)" using e2 vd by (cases ?st2) simp
  from 3 e3 e2 have "user_info_step ps [] = Inr []" by simp
  from user_info_step_sub[OF this sub2] have u: "user_info_step vd [] = Inr []" .
  from 4 e3 have "chat_history_step ps [] = Inr []" by simp
  from chat_history_step_sub[OF this sub2] have c: "chat_history_step vd [] = Inr []" .
  show ?thesis
    unfolding validate_body_def Let_def c1 c2 st2 using u c by simp
qed

text \<open>
  Claim C6.  When a request validates, validating its \<^verbatim>\<open>validated_data\<close> as the parameter bag
  of the same tool gives a valid result with no errors whose \<^verbatim>\<open>validated_data\<close> is that same
  dictionary: the same fields, in the same order, with the same values.
\<close>

theorem C6_revalidation:
  assumes "is_valid (validate_tool_request req)"
    and "validated_data (validate_tool_request req) = Some vd"
  shows "validate_tool_request (req\<lparr>parameters := vd\<rparr>) =
           \<lparr>is_valid = True, errors = [], warnings = [], validated_data = Some vd\<rparr>"
proof -
  from assms(1) obtain schema where k: "map_of tool_schemas (tool_name req) = Some schema"
    by (cases "map_of tool_schemas (tool_name req)") (auto simp: validate_tool_request_def)
  from assms k have "validate_body schema (parameters req) = Inr ([], vd)"
    by (auto simp: validate_tool_request_def split: sum.splits prod.splits if_splits)
  from validate_body_idem[OF this] k show ?thesis
    by (simp add: validate_tool_request_def)
qed

theorem C6_revalidation_witness:
  "is_valid (validate_tool_request (sample_note_request ''user'')) \<and>
   validated_data (validate_tool_request (sample_note_request ''user''))
     = Some (parameters (sample_note_request ''user'')) \<and>
   validate_tool_request ((sample_note_request ''user'')
      \<lparr>parameters := parameters (sample_note_request ''user'')\<rparr>)
     = \<lparr>is_valid = True, errors = [], warnings = [],
        validated_data = Some (parameters (sample_note_request ''user''))\<rparr>"
proof -
  have h1: "is_valid (validate_tool_request (sample_note_request ''user''))"
    by (simp add: validator_defs)
  have h2: "validated_data (validate_tool_request (sample_note_request ''user''))
              = Some (parameters (sample_note_request ''user''))"
    by (simp add: validator_defs)
  from C6_revalidation[OF h1 h2] h1 h2 show ?thesis by blast
qed

subsection \<open>The role of a chat message\<close>

text \<open>The role constraint lists the permitted roles under the key \<^verbatim>\<open>"enum"\<close>, which
  \<^verbatim>\<open>_validate_constraints\<close> never reads (it reads \<^verbatim>\<open>"enum_values"\<close>): no role string produces
  an error.\<close>

lemma role_never_rejected: "validate_constraints (PStr r) role_constraints = []"
  by (simp add: validate_constraints_def role_constraints_def str_constraint_errors_def
      no_constraints_def)

text \<open>
  Claim C4 at a failing input: a \<^verbatim>\<open>note_maker\<close> request whose fields are all schema-valid
  and whose only chat message has the role \<^verbatim>\<open>system\<close> is accepted.
\<close>

theorem C4_role_system_accepted:
  "validate_tool_request (sample_note_request ''system'')
   = \<lparr>is_valid = True, errors = [], warnings = [],
      validated_data = Some (parameters (sample_note_request ''system''))\<rparr>"
  by (simp add: validator_defs)

subsection \<open>sanitize\_input\<close>

text \<open>In a list, strings are copied as they are.\<close>

lemma sanitize_items_strings: "sanitize_items (map PStr ss) = map PStr ss"
  by (induction ss) simp_all

text \<open>A string is stripped before its null characters are removed, so white space that
  follows a leading null character stays.\<close>

lemma strip_before_null:
  "sanitize_input [(''k'', PStr ([CHR 0x00] @ '' a''))] = [(''k'', PStr '' a'')]"
  by (simp add: strip_def remove_null_def is_space_def)

text \<open>
  Claim C9 at a failing input, the data of the repository's own test: the strings that are
  direct elements of a list are copied unchanged, so the null character of the second
  element survives.
\<close>

theorem C9_list_strings_not_sanitized:
  "sanitize_input
     [(''text'', PStr (''  Test text with'' @ [CHR 0x00] @ ''null character  '')),
      (''nested'', PDict [(''value'', PStr (''Another'' @ [CHR 0x00] @ ''value''))]),
      (''list'', PList [PStr ''Item1'', PStr (''Item2'' @ [CHR 0x00])])]
   = [(''text'', PStr ''Test text withnull character''),
      (''nested'', PDict [(''value'', PStr ''Anothervalue'')]),
      (''list'', PList [PStr ''Item1'', PStr (''Item2'' @ [CHR 0x00])])]"
  by (simp add: strip_def remove_null_def is_space_def)

section \<open>Properties of the context analyzer\<close>

subsection \<open>Counts\<close>












text \<open>Whatever the message, a count that is returned lies between 1 and 20.\<close>

lemma extract_count_range: "extract_count m = Inr (Some c) \<Longrightarrow> 1 \<le> c \<and> c \<le> 20"
  by (auto simp: extract_count_def count_patterns_def split: option.splits sum.splits)





subsection \<open>Intent classification\<close>

lemma pattern_score_pos:
  assumes "\<exists>p\<in>set ps. contains m p"
  shows "0 < pattern_score m ps"
proof -
  from assms have "filter (contains m) ps \<noteq> []" by (auto simp: filter_empty_conv)
  then have 1: "0 < length (filter (contains m) ps)" by simp
  from assms have "ps \<noteq> []" by auto
  then have 2: "0 < length ps" by simp
  from 1 2 show ?thesis by (simp add: pattern_score_def)
qed

lemma detect_intent_flashcard:
  assumes "llm_intent_detection (llm message) = None"
    and "\<exists>p\<in>set (patterns_of ''flashcard_generation''). contains (lower message) p"
    and "pattern_score (lower message) (patterns_of ''note_making'')
           < pattern_score (lower message) (patterns_of ''flashcard_generation'')"
    and "pattern_score (lower message) (patterns_of ''concept_explanation'')
           \<le> pattern_score (lower message) (patterns_of ''flashcard_generation'')"
    and "pattern_score (lower message) (patterns_of ''quiz_generation'')
           \<le> pattern_score (lower message) (patterns_of ''flashcard_generation'')"
  shows "detect_intent llm message =
           Inr (''flashcard_generation'',
                pattern_score (lower message) (patterns_of ''flashcard_generation'')) \<and>
         0 < pattern_score (lower message) (patterns_of ''flashcard_generation'')"
proof -
  have pos: "0 < pattern_score (lower message) (patterns_of ''flashcard_generation'')"
    using assms(2) by (rule pattern_score_pos)
  have "detect_intent llm message =
           Inr (''flashcard_generation'',
                pattern_score (lower message) (patterns_of ''flashcard_generation''))"
    using assms(1,3,4,5)
    by (simp add: detect_intent_def intent_scores_def intent_patterns_def patterns_of_def Let_def)
  with pos show ?thesis by simp
qed

text \<open>
  Claim C8, as the code has it.  When the language model gives no override and the message
  matches at least one flashcard pattern, the classification is \<^verbatim>\<open>flashcard_generation\<close> with
  a positive confidence provided the flashcard score is greater than the note-making score
  and not below the concept-explanation and quiz-generation scores.
\<close>

theorem C8_flashcard_intent:
  assumes "llm_intent_detection (llm message) = None"
    and "\<exists>p\<in>set (patterns_of ''flashcard_generation''). contains (lower message) p"
    and "pattern_score (lower message) (patterns_of ''note_making'')
           < pattern_score (lower message) (patterns_of ''flashcard_generation'')"
    and "pattern_score (lower message) (patterns_of ''concept_explanation'')
           \<le> pattern_score (lower message) (patterns_of ''flashcard_generation'')"
    and "pattern_score (lower message) (patterns_of ''quiz_generation'')
           \<le> pattern_score (lower message) (patterns_of ''flashcard_generation'')"
  shows "\<exists>c. detect_intent llm message = Inr (''flashcard_generation'', c) \<and> 0 < c"
  using detect_intent_flashcard[of llm message] assms by blast

lemmas intent_defs = detect_intent_def intent_scores_def intent_patterns_def patterns_of_def
  pattern_score_def llm_intent_detection_def lower_def lower_char_def upper_latin1_def
  lower_latin1_def

theorem C8_flashcard_intent_witness:
  "llm_intent_detection ((\<lambda>m. None) ''flashcards and memorize'') = None \<and>
   contains (lower ''flashcards and memorize'') ''memorize'' \<and>
   (\<exists>c. detect_intent (\<lambda>m. None) ''flashcards and memorize''
          = Inr (''flashcard_generation'', c) \<and> 0 < c)"
proof -
  have h1: "llm_intent_detection ((\<lambda>m. None) ''flashcards and memorize'') = None"
    by (simp add: llm_intent_detection_def)
  have c: "contains (lower ''flashcards and memorize'') ''memorize''"
    by (simp add: lower_def lower_char_def upper_latin1_def lower_latin1_def)
  have h2: "\<exists>p\<in>set (patterns_of ''flashcard_generation'').
              contains (lower ''flashcards and memorize'') p"
    by (simp add: intent_defs)
  have h3: "pattern_score (lower ''flashcards and memorize'') (patterns_of ''note_making'')
           < pattern_score (lower ''flashcards and memorize'') (patterns_of ''flashcard_generation'')"
    by (simp add: intent_defs)
  have h4: "pattern_score (lower ''flashcards and memorize'') (patterns_of ''concept_explanation'')
           \<le> pattern_score (lower ''flashcards and memorize'') (patterns_of ''flashcard_generation'')"
    by (simp add: intent_defs)
  have h5: "pattern_score (lower ''flashcards and memorize'') (patterns_of ''quiz_generation'')
           \<le> pattern_score (lower ''flashcards and memorize'') (patterns_of ''flashcard_generation'')"
    by (simp add: intent_defs)
  from C8_flashcard_intent[of "\<lambda>m. None" "''flashcards and memorize''"] h1 h2 h3 h4 h5 c
  show ?thesis by blast
qed

text \<open>A message that matches no pattern of the three other intents has their scores at
  zero, so one flashcard keyword is enough.\<close>

lemma pattern_score_zero: "\<forall>p\<in>set ps. \<not> contains m p \<Longrightarrow> pattern_score m ps = 0"
  by (simp add: pattern_score_def filter_False)

lemma flashcard_only_keywords:
  assumes "llm_intent_detection (llm message) = None"
    and "\<exists>p\<in>set (patterns_of ''flashcard_generation''). contains (lower message) p"
    and "\<forall>p\<in>set (patterns_of ''note_making''). \<not> contains (lower message) p"
    and "\<forall>p\<in>set (patterns_of ''concept_explanation''). \<not> contains (lower message) p"
    and "\<forall>p\<in>set (patterns_of ''quiz_generation''). \<not> contains (lower message) p"
  shows "\<exists>c. detect_intent llm message = Inr (''flashcard_generation'', c) \<and> 0 < c"
proof -
  have pos: "0 < pattern_score (lower message) (patterns_of ''flashcard_generation'')"
    using assms(2) by (rule pattern_score_pos)
  from detect_intent_flashcard[of llm message] assms(1,2) pos
    pattern_score_zero[OF assms(3)] pattern_score_zero[OF assms(4)] pattern_score_zero[OF assms(5)]
  show ?thesis by auto
qed

text \<open>The claim as stated fails at the message \<^verbatim>\<open>quiz\<close>: it is a flashcard keyword and
  matches a flashcard pattern, but it scores 1/8 for flashcards and 1/7 for quiz
  generation.\<close>

theorem C8_quiz_counterexample:
  "''quiz'' \<in> set (patterns_of ''flashcard_generation'') \<and>
   contains (lower ''quiz'') ''quiz'' \<and>
   llm_intent_detection ((\<lambda>m. None) ''quiz'') = None \<and>
   detect_intent (\<lambda>m. None) ''quiz'' = Inr (''quiz_generation'', 1 / 7)"
  by (simp add: intent_defs)



subsection \<open>Difficulty\<close>

text \<open>The analyzer's rule, for every context.\<close>

lemma infer_difficulty_rule:
  "infer_difficulty c =
     (if emotional_state c \<in> {Some CONFUSED, Some ANXIOUS, Some TIRED} then ''easy''
      else if emotional_state c = Some FOCUSED then
        (case mastery_level c of
           None \<Rightarrow> ''easy''
         | Some n \<Rightarrow> if n \<ge> 7 then ''hard'' else if 4 \<le> n then ''medium'' else ''easy'')
      else
        (case mastery_level c of
           None \<Rightarrow> ''medium''
         | Some n \<Rightarrow> if n = 0 then ''medium'' else if n \<le> 3 then ''easy''
                     else if n \<le> 6 then ''medium'' else ''hard''))"
  by (cases "emotional_state c"; cases "mastery_level c")
     (auto simp: infer_difficulty_def Let_def)

section \<open>Properties of the parameter extractor\<close>

lemmas count_defs = extract_count_def count_patterns_def match_here_def is_digit_def is_space_def
  int_of_digits_def digit_value_def py_int_def int_max_str_digits_def lower_def lower_char_def
  upper_latin1_def lower_latin1_def

lemmas extractor_defs = extract_with_multiple_methods_def dict_update_def infer_from_context_def
  infer_flashcard_params_def infer_note_maker_params_def infer_concept_explainer_params_def
  fill_defaults_def assign_default_values_def
  sample_context_def sample_intent_def map_intent_to_tool_def user_info_dict_def sample_user_def

text \<open>The flashcard pass of the extractor has a rule of its own: easy for a confused or an
  anxious student, hard for a focused one with mastery at least 7, medium for everyone
  else.\<close>

lemma flashcard_difficulty_rule:
  "map_of (infer_flashcard_params c) ''difficulty'' =
     Some (PStr (if emotional_state c \<in> {Some CONFUSED, Some ANXIOUS} then ''easy''
                 else if emotional_state c = Some FOCUSED \<and>
                         (\<exists>n. mastery_level c = Some n \<and> n \<ge> 7) then ''hard''
                 else ''medium''))"
  by (cases "mastery_level c") (auto simp: infer_flashcard_params_def Let_def)

text \<open>
  Claim C3 at a failing input: for a tired student with mastery 5 the analyzer infers
  \<^verbatim>\<open>easy\<close>, as the rule says, and the flashcard pass of the extractor infers \<^verbatim>\<open>medium\<close>.
\<close>

theorem C3_flashcard_pass_tired_medium:
  "infer_difficulty (sample_context ''flashcards please'' (Some TIRED) (Some 5)) = ''easy'' \<and>
   map_of (infer_flashcard_params (sample_context ''flashcards please'' (Some TIRED) (Some 5)))
     ''difficulty'' = Some (PStr ''medium'')"
  by (simp add: infer_difficulty_def extractor_defs)

text \<open>Passes 1 to 3 are merged with \<^verbatim>\<open>update\<close>, so the last writer wins: whatever the intent
  and the language model supply, the count of a flashcard request is the one the
  contextual pass derives from the mastery level.\<close>

lemma dict_update_Cons:
  "dict_update d (kv # other) = dict_update (AList.update (fst kv) (snd kv) d) other"
  by (simp add: dict_update_def)

lemma flashcard_count_contextual:
  "map_of (extract_with_multiple_methods llm_params intent c ''flashcard_generator'') ''count'' =
     Some (PInt (if truthy_level (mastery_level c)
                 then (if the (mastery_level c) \<le> 3 then 5
                       else if the (mastery_level c) \<le> 6 then 10 else 15)
                 else 10))"
  by (simp add: extract_with_multiple_methods_def infer_from_context_def
      infer_flashcard_params_def fill_defaults_def assign_default_values_def Let_def
      dict_update_Cons update_conv' dict_update_def[of _ "[]"])

text \<open>
  Claim C1 at a failing input: the message asks for 15 cards, the analyzer extracts the
  count 15, and for a student with mastery 3 the merged parameters hold the count 5 of the
  contextual pass.
\<close>

theorem C1_explicit_count_overwritten:
  "extract_count (lower ''I need 15 cards on fractions'') = Inr (Some 15) \<and>
   map_of (extract_with_multiple_methods []
      (sample_intent ''flashcard_generation'' [(''count'', PInt 15)])
      (sample_context ''I need 15 cards on fractions'' (Some FOCUSED) (Some 3))
      ''flashcard_generator'') ''count'' = Some (PInt 5)"
  by (simp add: count_defs extractor_defs)

section \<open>Properties of the orchestrator\<close>





text \<open>
  Claim C10.  The extractor has no schema for the tool of the quiz-generation intent, nor
  for the tool of the analyzer's fallback intent.  For every intent whose tool has no
  schema, the extraction fails with empty parameters and an empty missing list, filling
  the missing list gives nothing, and the workflow ends in the error handler: the result
  is a failure with the message \<^verbatim>\<open>Missing intent or parameters\<close>, no tool request is built, no
  tool response exists and no request is posted.
\<close>

theorem C10_no_schema_error_path:
  "map_intent_to_tool ''quiz_generation'' = ''quiz_generator'' \<and>
   map_of extractor_schemas ''quiz_generator'' = None \<and>
   suggested_tool fallback_intent = ''none'' \<and>
   map_of extractor_schemas ''none'' = None \<and>
   (analyzer context = intent \<and> map_of extractor_schemas (suggested_tool intent) = None \<longrightarrow>
      extract_parameters llm_params intent context =
        \<lparr>pe_success = False, pe_extracted_parameters = [], pe_missing_parameters = [],
         pe_confidence_scores = [], pe_extraction_method = ''error''\<rparr> \<and>
      fill_missing_parameters [] context (suggested_tool intent) = [] \<and>
      run_workflow env analyzer llm context =
        ((initial_state context)\<lparr>
            educational_intent := Some intent,
            error_message := Some ''Missing intent or parameters'',
            orchestrator_response := Some
              \<lparr>resp_success = False, resp_tool_response = None,
               resp_educational_intent = Some intent,
               resp_error_message = Some ''Missing intent or parameters'',
               resp_conversation_context = Some context\<rparr>,
            workflow_step := ''error_handled''\<rparr>, []) \<and>
      tool_request (fst (run_workflow env analyzer llm context)) = None \<and>
      tool_response (fst (run_workflow env analyzer llm context)) = None)"
  by (simp add: extract_parameters_def fill_missing_parameters_def run_workflow_def
      analyze_context_node_def extract_parameters_node_def validate_request_node_def
      should_execute_tool_def handle_error_node_def initial_state_def dict_update_def Let_def
      extractor_schemas_def map_intent_to_tool_def fallback_intent_def)

theorem C10_no_schema_error_path_witness:
  "map_of extractor_schemas (suggested_tool (sample_intent ''quiz_generation'' [])) = None \<and>
   pe_success (extract_parameters [] (sample_intent ''quiz_generation'' [])
                 (sample_context ''quiz me on fractions'' None None)) = False \<and>
   orchestrate (sample_env ConnectError) (\<lambda>c. sample_intent ''quiz_generation'' []) (\<lambda>c t. [])
       (sample_context ''quiz me on fractions'' None None)
     = Some \<lparr>resp_success = False, resp_tool_response = None,
             resp_educational_intent = Some (sample_intent ''quiz_generation'' []),
             resp_error_message = Some ''Missing intent or parameters'',
             resp_conversation_context = Some (sample_context ''quiz me on fractions'' None None)\<rparr>"
proof -
  let ?i = "sample_intent ''quiz_generation'' []"
  let ?c = "sample_context ''quiz me on fractions'' None None"
  have h: "map_of extractor_schemas (suggested_tool ?i) = None"
    by (simp add: sample_intent_def map_intent_to_tool_def extractor_schemas_def)
  have a: "(\<lambda>c. ?i) ?c = ?i" by simp
  from C10_no_schema_error_path[of "\<lambda>c. ?i" ?c ?i "[]" "sample_env ConnectError" "\<lambda>c t. []"] h a
  show ?thesis by (simp add: orchestrate_def)
qed


end
